theory Spec2Isabelle
  imports Main
begin

section \<open>Go values: errors, slices, panics\<close>

text \<open>
  The package \<^verbatim>\<open>schema\<close> (file \<^verbatim>\<open>schema.go\<close>) is embedded function by function.
  A Go function returning \<^verbatim>\<open>(T, error)\<close> becomes a function returning a pair whose
  second component is \<open>None\<close> for a \<^verbatim>\<open>nil\<close> error. A pointer or interface result is an
  \<open>option\<close> (\<open>None\<close> is \<^verbatim>\<open>nil\<close>), and so is a slice: \<open>None\<close> is the \<^verbatim>\<open>nil\<close> slice,
  \<open>Some []\<close> an allocated slice of length zero.

  The sentinel errors are package-level variables made with \<^verbatim>\<open>errors.New\<close>.
  \<^verbatim>\<open>fmt.Errorf("%w: ...", sentinel, ...)\<close> wraps a sentinel: the model keeps the sentinel
  and the formatted text that follows the \<^verbatim>\<open>%w\<close> verb. \<^verbatim>\<open>errors.Is\<close> holds of the
  sentinel itself and of every error that wraps it.
\<close>

text \<open>
  Modelled from the spec: the sentinels \<open>ErrBadMatchCondition\<close>, \<open>ErrBadVariable\<close>,
  \<open>ErrBadFailurePolicy\<close> and \<open>ErrBadEnforcementAction\<close> of the error taxonomy (section 7);
  \<^verbatim>\<open>schema.go\<close> and the test use them, and their declarations are in files that are not
  at hand. \<open>ErrBadType\<close> and \<open>ErrMissingField\<close> are declared in \<^verbatim>\<open>schema.go\<close>.
\<close>

datatype sentinel =
    ErrBadType
  | ErrMissingField
  | ErrBadMatchCondition
  | ErrBadVariable
  | ErrBadFailurePolicy
  | ErrBadEnforcementAction

datatype error =
    Sentinel sentinel
  | Errorf sentinel string
  | New string

fun errors_Is :: "error \<Rightarrow> sentinel \<Rightarrow> bool" where
  "errors_Is (Sentinel s) target = (s = target)"
| "errors_Is (Errorf s msg) target = (s = target)"
| "errors_Is (New msg) target = False"

text \<open>A call either returns or panics (a \<^verbatim>\<open>nil\<close> pointer is dereferenced).\<close>

datatype 'a outcome = Panic | Return 'a

type_synonym 'a slice = "'a list option"

text \<open>\<^verbatim>\<open>len(s)\<close> and \<^verbatim>\<open>append(s, xs...)\<close>; appending nothing to \<^verbatim>\<open>nil\<close> leaves \<^verbatim>\<open>nil\<close>.\<close>

fun len :: "'a slice \<Rightarrow> nat" where
  "len None = 0"
| "len (Some xs) = length xs"

fun elems :: "'a slice \<Rightarrow> 'a list" where
  "elems None = []"
| "elems (Some xs) = xs"

fun append_slice :: "'a slice \<Rightarrow> 'a list \<Rightarrow> 'a slice" where
  "append_slice None [] = None"
| "append_slice None (x # xs) = Some (x # xs)"
| "append_slice (Some ys) xs = Some (ys @ xs)"

text \<open>
  \<^verbatim>\<open>for i, x := range xs { body }\<close>, started at index \<open>i\<close>, threading the variables the
  body assigns.
\<close>

fun range_loop :: "(nat \<Rightarrow> 'a \<Rightarrow> 's \<Rightarrow> 's) \<Rightarrow> 'a list \<Rightarrow> nat \<Rightarrow> 's \<Rightarrow> 's" where
  "range_loop body [] i s = s"
| "range_loop body (x # xs) i s = range_loop body xs (Suc i) (body i x s)"

text \<open>\<^verbatim>\<open>strings.HasPrefix(s, prefix)\<close>: \<^verbatim>\<open>len(s) >= len(prefix) && s[:len(prefix)] == prefix\<close>.\<close>

definition HasPrefix :: "string \<Rightarrow> string \<Rightarrow> bool" where
  "HasPrefix s p = (length p \<le> length s \<and> take (length p) s = p)"

text \<open>The verb \<^verbatim>\<open>%q\<close> on a string of plain letters, digits and underscores: the string in double quotes.\<close>

definition quoted :: "string \<Rightarrow> string" where
  "quoted s = [CHR 0x22] @ s @ [CHR 0x22]"

section \<open>The source schema\<close>

definition Name :: string where
  "Name = ''K8sNativeValidation''"

definition ReservedPrefix :: string where
  "ReservedPrefix = ''gatekeeper_internal_''"

definition ParamsName :: string where
  "ParamsName = ''params''"

record Validation =
  v_Expression :: string
  v_Message :: string
  v_MessageExpression :: string

record MatchCondition =
  mc_Name :: string
  mc_Expression :: string

record Variable =
  var_Name :: string
  var_Expression :: string

text \<open>
  The three slices of a \<open>Source\<close> are only ranged over and measured, which does not
  tell a \<^verbatim>\<open>nil\<close> slice from an empty one: they are lists. \<open>FailurePolicy\<close> is a
  \<^verbatim>\<open>*string\<close>. The methods below take the receiver by value: they are the methods on a
  non-\<^verbatim>\<open>nil\<close> \<^verbatim>\<open>*Source\<close>.
\<close>

record Source =
  Validations :: "Validation list"
  FailurePolicy :: "string option"
  MatchConditions :: "MatchCondition list"
  Variables :: "Variable list"

subsection \<open>The target types of the two API flavours\<close>

text \<open>
  The types of \<^verbatim>\<open>k8s.io/apiserver\<close> (the expression accessors) and of
  \<^verbatim>\<open>k8s.io/api/admissionregistration/v1alpha1\<close>, with the fields they declare. A
  \<^verbatim>\<open>FailurePolicyType\<close> is a named string type whose constants \<^verbatim>\<open>Fail\<close> and \<^verbatim>\<open>Ignore\<close>
  are the strings \<^verbatim>\<open>"Fail"\<close> and \<^verbatim>\<open>"Ignore"\<close> in both API versions.
\<close>

record cel_MatchCondition =
  cmc_Name :: string
  cmc_Expression :: string

record cel_Variable =
  cvar_Name :: string
  cvar_Expression :: string

record ValidationCondition =
  vc_Expression :: string
  vc_Message :: string
  vc_Reason :: "string option"

record MessageExpressionCondition =
  mec_MessageExpression :: string

record v1alpha1_MatchCondition =
  amc_Name :: string
  amc_Expression :: string

record v1alpha1_Variable =
  avar_Name :: string
  avar_Expression :: string

record v1alpha1_Validation =
  aval_Expression :: string
  aval_Message :: string
  aval_Reason :: "string option"
  aval_MessageExpression :: string

text \<open>
  \<^verbatim>\<open>cel.ExpressionAccessor\<close> and \<^verbatim>\<open>cel.NamedExpressionAccessor\<close> are interfaces; the
  values stored in them here are pointers to the structs above. A \<^verbatim>\<open>nil\<close> interface
  value is \<open>None\<close>.
\<close>

datatype ExpressionAccessor =
    MatchConditionPtr cel_MatchCondition
  | ValidationConditionPtr ValidationCondition
  | MessageExpressionConditionPtr MessageExpressionCondition

datatype NamedExpressionAccessor =
    VariablePtr cel_Variable

type_synonym admissionv1_FailurePolicyType = string
type_synonym admissionv1alpha1_FailurePolicyType = string

definition admissionv1_Fail :: admissionv1_FailurePolicyType where
  "admissionv1_Fail = ''Fail''"

definition admissionv1_Ignore :: admissionv1_FailurePolicyType where
  "admissionv1_Ignore = ''Ignore''"

definition admissionv1alpha1_Fail :: admissionv1alpha1_FailurePolicyType where
  "admissionv1alpha1_Fail = ''Fail''"

definition admissionv1alpha1_Ignore :: admissionv1alpha1_FailurePolicyType where
  "admissionv1alpha1_Ignore = ''Ignore''"

subsection \<open>Match conditions\<close>

definition badMatchCondition :: "string \<Rightarrow> error" where
  "badMatchCondition name =
     Errorf ErrBadMatchCondition
       ('': '' @ name @ '' is not a valid match condition; cannot have ''
          @ quoted ReservedPrefix @ '' as a prefix'')"

fun validateMatchConditions_loop :: "MatchCondition list \<Rightarrow> error option" where
  "validateMatchConditions_loop [] = None"
| "validateMatchConditions_loop (condition # rest) =
     (if HasPrefix (mc_Name condition) ReservedPrefix
      then Some (badMatchCondition (mc_Name condition))
      else validateMatchConditions_loop rest)"

definition validateMatchConditions :: "Source \<Rightarrow> error option" where
  "validateMatchConditions src = validateMatchConditions_loop (MatchConditions src)"

definition GetMatchConditions :: "Source \<Rightarrow> ExpressionAccessor option slice \<times> error option" where
  "GetMatchConditions src =
     (case validateMatchConditions src of
        Some err \<Rightarrow> (None, Some err)
      | None \<Rightarrow>
          (let matchConditions = replicate (length (MatchConditions src)) None
           in (Some (range_loop
                 (\<lambda>i mc out. out[i := Some (MatchConditionPtr
                     \<lparr>cmc_Name = mc_Name mc, cmc_Expression = mc_Expression mc\<rparr>)])
                 (MatchConditions src) 0 matchConditions),
               None)))"

definition GetV1Alpha1MatchConditions :: "Source \<Rightarrow> v1alpha1_MatchCondition slice \<times> error option" where
  "GetV1Alpha1MatchConditions src =
     (case validateMatchConditions src of
        Some err \<Rightarrow> (None, Some err)
      | None \<Rightarrow>
          (range_loop
             (\<lambda>i mc matchConditions. append_slice matchConditions
                 [\<lparr>amc_Name = mc_Name mc, amc_Expression = mc_Expression mc\<rparr>])
             (MatchConditions src) 0 None,
           None))"

subsection \<open>Variables\<close>

definition badVariablePrefix :: "string \<Rightarrow> error" where
  "badVariablePrefix name =
     Errorf ErrBadVariable
       ('': '' @ name @ '' is not a valid variable; cannot have ''
          @ quoted ReservedPrefix @ '' as a prefix'')"

definition badVariableParams :: error where
  "badVariableParams =
     Errorf ErrBadVariable
       ('': '' @ ParamsName @ '' an invalid variable name, ''
          @ quoted ParamsName @ '' is a reserved keyword'')"

fun validateVariables_loop :: "Variable list \<Rightarrow> error option" where
  "validateVariables_loop [] = None"
| "validateVariables_loop (v # rest) =
     (if HasPrefix (var_Name v) ReservedPrefix then Some (badVariablePrefix (var_Name v))
      else if var_Name v = ParamsName then Some badVariableParams
      else validateVariables_loop rest)"

definition validateVariables :: "Source \<Rightarrow> error option" where
  "validateVariables src = validateVariables_loop (Variables src)"

definition GetVariables :: "Source \<Rightarrow> NamedExpressionAccessor option slice \<times> error option" where
  "GetVariables src =
     (case validateVariables src of
        Some err \<Rightarrow> (None, Some err)
      | None \<Rightarrow>
          (let vars = replicate (length (Variables src)) None
           in (Some (range_loop
                 (\<lambda>i v out. out[i := Some (VariablePtr
                     \<lparr>cvar_Name = var_Name v, cvar_Expression = var_Expression v\<rparr>)])
                 (Variables src) 0 vars),
               None)))"

definition GetV1Alpha1Variables :: "Source \<Rightarrow> v1alpha1_Variable slice \<times> error option" where
  "GetV1Alpha1Variables src =
     (case validateVariables src of
        Some err \<Rightarrow> (None, Some err)
      | None \<Rightarrow>
          (range_loop
             (\<lambda>i v variables. append_slice variables
                 [\<lparr>avar_Name = var_Name v, avar_Expression = var_Expression v\<rparr>])
             (Variables src) 0 None,
           None))"

subsection \<open>Validations\<close>

definition GetValidations :: "Source \<Rightarrow> ExpressionAccessor option slice \<times> error option" where
  "GetValidations src =
     (let validations = replicate (length (Validations src)) None
      in (Some (range_loop
            (\<lambda>i validation out. out[i := Some (ValidationConditionPtr
                \<lparr>vc_Expression = v_Expression validation,
                 vc_Message = v_Message validation,
                 vc_Reason = None\<rparr>)])
            (Validations src) 0 validations),
          None))"

definition GetV1Alpha1Validatons :: "Source \<Rightarrow> v1alpha1_Validation slice \<times> error option" where
  "GetV1Alpha1Validatons src =
     (range_loop
        (\<lambda>i v validations. append_slice validations
            [\<lparr>aval_Expression = v_Expression v,
              aval_Message = v_Message v,
              aval_Reason = None,
              aval_MessageExpression = v_MessageExpression v\<rparr>])
        (Validations src) 0 None,
      None)"

definition GetMessageExpressions :: "Source \<Rightarrow> ExpressionAccessor option slice \<times> error option" where
  "GetMessageExpressions src =
     (let messageExpressions = replicate (length (Validations src)) None
      in (Some (range_loop
            (\<lambda>i validation out.
                if v_MessageExpression validation \<noteq> ''''
                then out[i := Some (MessageExpressionConditionPtr
                       \<lparr>mec_MessageExpression = v_MessageExpression validation\<rparr>)]
                else out)
            (Validations src) 0 messageExpressions),
          None))"

subsection \<open>Failure policy\<close>

definition badFailurePolicy :: "string \<Rightarrow> error" where
  "badFailurePolicy p =
     Errorf ErrBadFailurePolicy ('': unrecognized failure policy: '' @ p)"

definition GetFailurePolicy :: "Source \<Rightarrow> admissionv1_FailurePolicyType option \<times> error option" where
  "GetFailurePolicy src =
     (case FailurePolicy src of
        None \<Rightarrow> (None, None)
      | Some p \<Rightarrow>
          if p = admissionv1_Fail then (Some admissionv1_Fail, None)
          else if p = admissionv1_Ignore then (Some admissionv1_Ignore, None)
          else (None, Some (badFailurePolicy p)))"

definition GetV1alpha1FailurePolicy :: "Source \<Rightarrow> admissionv1alpha1_FailurePolicyType option \<times> error option" where
  "GetV1alpha1FailurePolicy src =
     (case FailurePolicy src of
        None \<Rightarrow> (None, None)
      | Some p \<Rightarrow>
          if p = admissionv1_Fail then (Some admissionv1alpha1_Fail, None)
          else if p = admissionv1_Ignore then (Some admissionv1alpha1_Ignore, None)
          else (None, Some (badFailurePolicy p)))"

subsection \<open>Validate\<close>

definition Validate :: "Source \<Rightarrow> error option" where
  "Validate src =
     (case validateMatchConditions src of
        Some err \<Rightarrow> Some err
      | None \<Rightarrow>
          (case validateVariables src of
             Some err \<Rightarrow> Some err
           | None \<Rightarrow>
               (case snd (GetFailurePolicy src) of
                  Some err \<Rightarrow> Some err
                | None \<Rightarrow> None)))"

section \<open>Reading the source out of a template\<close>

text \<open>
  Modelled from the spec: the template of section 6 (input A), that is the types of the
  package \<^verbatim>\<open>templates\<close>, whose declarations are not at hand, with the fields that
  \<^verbatim>\<open>GetSource\<close>, \<^verbatim>\<open>GetSourceFromTemplate\<close> and the test read and set. The payload of a code
  entry is a pointer to an \<^verbatim>\<open>Anything\<close>, whose \<^verbatim>\<open>Value\<close> is an \<^verbatim>\<open>interface{}\<close> holding
  unstructured (JSON-like) content; a Go map is written as an association list, which
  the functions below hand on without looking inside. A template's \<open>ct_Name\<close> is
  \<^verbatim>\<open>ObjectMeta.Name\<close>, \<open>ct_Kind\<close> is \<^verbatim>\<open>Spec.CRD.Spec.Names.Kind\<close> and \<open>ct_Targets\<close> is
  \<^verbatim>\<open>Spec.Targets\<close>.
\<close>

datatype anyval =
    AnyNil
  | AnyBool bool
  | AnyInt int
  | AnyString string
  | AnySlice "anyval list"
  | AnyMap "(string \<times> anyval) list"

record Anything =
  Value :: anyval

record Code =
  code_Engine :: string
  code_Source :: "Anything option"

record Target =
  Code :: "Code list"

record ConstraintTemplate =
  ct_Name :: string
  ct_Kind :: string
  ct_Targets :: "Target list"

text \<open>
  \<^verbatim>\<open>runtime.DefaultUnstructuredConverter.FromUnstructured(v, out)\<close> belongs to the
  Kubernetes library. It is a parameter of the model: a function from the map and the
  value \<^verbatim>\<open>out\<close> points to, to the value it leaves there and the error it returns.
\<close>

type_synonym converter = "(string \<times> anyval) list \<Rightarrow> Source \<Rightarrow> Source \<times> error option"

definition zeroSource :: Source where
  "zeroSource = \<lparr>Validations = [], FailurePolicy = None, MatchConditions = [], Variables = []\<rparr>"

definition GetSource :: "converter \<Rightarrow> Code \<Rightarrow> (Source option \<times> error option) outcome" where
  "GetSource FromUnstructured code =
     (case code_Source code of
        None \<Rightarrow> Panic
      | Some rawCode \<Rightarrow>
          (case Value rawCode of
             AnyMap v \<Rightarrow>
               (case FromUnstructured v zeroSource of
                  (out, Some err) \<Rightarrow> Return (None, Some err)
                | (out, None) \<Rightarrow>
                    (case Validate out of
                       Some err \<Rightarrow> Return (None, Some err)
                     | None \<Rightarrow> Return (Some out, None)))
           | _ \<Rightarrow> Return (None, Some (Sentinel ErrBadType))))"

text \<open>
  The loop of \<^verbatim>\<open>GetSourceFromTemplate\<close>. Its result is what the function has in hand
  when the loop is left: after a \<^verbatim>\<open>return nil, err\<close> inside the loop the pair
  \<open>(None, Some err)\<close>; after the \<^verbatim>\<open>break\<close>, or when the range is exhausted, the variable
  \<^verbatim>\<open>source\<close> and no error. The template is taken by value: this is the function on a
  non-\<^verbatim>\<open>nil\<close> \<^verbatim>\<open>*ConstraintTemplate\<close>.
\<close>

fun GetSourceFromTemplate_loop :: "converter \<Rightarrow> Code list \<Rightarrow> (Source option \<times> error option) outcome" where
  "GetSourceFromTemplate_loop FromUnstructured [] = Return (None, None)"
| "GetSourceFromTemplate_loop FromUnstructured (code # rest) =
     (if code_Engine code \<noteq> Name then GetSourceFromTemplate_loop FromUnstructured rest
      else
        (case GetSource FromUnstructured code of
           Panic \<Rightarrow> Panic
         | Return (source, Some err) \<Rightarrow> Return (None, Some err)
         | Return (source, None) \<Rightarrow> Return (source, None)))"

definition errWrongNumberOfTargets :: error where
  "errWrongNumberOfTargets = New ''wrong number of targets defined, only 1 target allowed''"

definition errCodeNotDefined :: error where
  "errCodeNotDefined = New ''K8sNativeValidation code not defined''"

definition GetSourceFromTemplate :: "converter \<Rightarrow> ConstraintTemplate \<Rightarrow> (Source option \<times> error option) outcome" where
  "GetSourceFromTemplate FromUnstructured ct =
     (if length (ct_Targets ct) \<noteq> 1 then Return (None, Some errWrongNumberOfTargets)
      else
        (case GetSourceFromTemplate_loop FromUnstructured (Code (ct_Targets ct ! 0)) of
           Panic \<Rightarrow> Panic
         | Return (source, Some err) \<Rightarrow> Return (None, Some err)
         | Return (None, None) \<Rightarrow> Return (None, Some errCodeNotDefined)
         | Return (Some source, None) \<Rightarrow> Return (Some source, None)))"

subsection \<open>A converter for concrete inputs\<close>

text \<open>
  The theorems below hold for every converter. To run the functions on concrete
  templates, \<open>decodeSource\<close> is one converter: it reads the four fields of a \<open>Source\<close>
  from the map under the names of their JSON tags, leaves a field whose key is absent
  as it was, and fails on a value of the wrong shape.
\<close>

definition stringField :: "(string \<times> anyval) list \<Rightarrow> string \<Rightarrow> string option" where
  "stringField m k =
     (case map_of m k of
        None \<Rightarrow> Some []
      | Some (AnyString s) \<Rightarrow> Some s
      | Some _ \<Rightarrow> None)"

definition listField :: "(anyval \<Rightarrow> 'a option) \<Rightarrow> (string \<times> anyval) list \<Rightarrow> string \<Rightarrow> 'a list \<Rightarrow> 'a list option" where
  "listField dec m k old =
     (case map_of m k of
        None \<Rightarrow> Some old
      | Some (AnySlice xs) \<Rightarrow> those (map dec xs)
      | Some _ \<Rightarrow> None)"

definition decodeValidation :: "anyval \<Rightarrow> Validation option" where
  "decodeValidation a =
     (case a of
        AnyMap m \<Rightarrow>
          (case (stringField m ''expression'', stringField m ''message'',
                 stringField m ''messageExpression'') of
             (Some e, Some msg, Some me) \<Rightarrow>
               Some \<lparr>v_Expression = e, v_Message = msg, v_MessageExpression = me\<rparr>
           | _ \<Rightarrow> None)
      | _ \<Rightarrow> None)"

definition decodeMatchCondition :: "anyval \<Rightarrow> MatchCondition option" where
  "decodeMatchCondition a =
     (case a of
        AnyMap m \<Rightarrow>
          (case (stringField m ''name'', stringField m ''expression'') of
             (Some n, Some e) \<Rightarrow> Some \<lparr>mc_Name = n, mc_Expression = e\<rparr>
           | _ \<Rightarrow> None)
      | _ \<Rightarrow> None)"

definition decodeVariable :: "anyval \<Rightarrow> Variable option" where
  "decodeVariable a =
     (case a of
        AnyMap m \<Rightarrow>
          (case (stringField m ''name'', stringField m ''expression'') of
             (Some n, Some e) \<Rightarrow> Some \<lparr>var_Name = n, var_Expression = e\<rparr>
           | _ \<Rightarrow> None)
      | _ \<Rightarrow> None)"

definition decodeFailurePolicy :: "(string \<times> anyval) list \<Rightarrow> string option \<Rightarrow> string option option" where
  "decodeFailurePolicy m old =
     (case map_of m ''failurePolicy'' of
        None \<Rightarrow> Some old
      | Some (AnyString s) \<Rightarrow> Some (Some s)
      | Some _ \<Rightarrow> None)"

definition decodeSource :: converter where
  "decodeSource m out =
     (case (listField decodeValidation m ''validations'' (Validations out),
            decodeFailurePolicy m (FailurePolicy out),
            listField decodeMatchCondition m ''matchCondition'' (MatchConditions out),
            listField decodeVariable m ''variables'' (Variables out)) of
        (Some vs, Some fp, Some mcs, Some vars) \<Rightarrow>
          (\<lparr>Validations = vs, FailurePolicy = fp, MatchConditions = mcs, Variables = vars\<rparr>, None)
      | _ \<Rightarrow> (out, Some (New ''cannot restore struct from unstructured content'')))"

subsection \<open>The sources and templates of the tests\<close>

text \<open>
  The four sources of \<^verbatim>\<open>TestTemplateToPolicyDefinition\<close>, their unstructured form, and
  the template the test builds around a payload. \<open>clashingSource\<close> is a further input:
  a reserved match-condition name together with a variable named \<^verbatim>\<open>params\<close>.
\<close>

definition testValidation :: Validation where
  "testValidation =
     \<lparr>v_Expression = ''1 == 1'', v_Message = ''some fallback message'',
      v_MessageExpression = quoted ''some CEL string''\<rparr>"

definition testSource :: "string \<Rightarrow> string \<Rightarrow> Source" where
  "testSource mcName varName =
     \<lparr>Validations = [testValidation],
      FailurePolicy = Some ''Fail'',
      MatchConditions = [\<lparr>mc_Name = mcName, mc_Expression = ''true == true''\<rparr>],
      Variables = [\<lparr>var_Name = varName, var_Expression = ''true''\<rparr>]\<rparr>"

definition validSource :: Source where
  "validSource = testSource ''must_match_something'' ''my_variable''"

definition invalidMatchConditionSource :: Source where
  "invalidMatchConditionSource = testSource ''gatekeeper_internal_match_something'' ''my_variable''"

definition invalidVariableSource :: Source where
  "invalidVariableSource = testSource ''match_something'' ''gatekeeper_internal_my_variable''"

definition clobberingParamsSource :: Source where
  "clobberingParamsSource = testSource ''match_something'' ''params''"

definition clashingSource :: Source where
  "clashingSource = testSource ''gatekeeper_internal_match_something'' ''params''"

definition testMap :: "string \<Rightarrow> string \<Rightarrow> (string \<times> anyval) list" where
  "testMap mcName varName =
     [(''validations'', AnySlice [AnyMap
         [(''expression'', AnyString ''1 == 1''),
          (''message'', AnyString ''some fallback message''),
          (''messageExpression'', AnyString (quoted ''some CEL string''))]]),
      (''failurePolicy'', AnyString ''Fail''),
      (''matchCondition'', AnySlice [AnyMap
         [(''name'', AnyString mcName), (''expression'', AnyString ''true == true'')]]),
      (''variables'', AnySlice [AnyMap
         [(''name'', AnyString varName), (''expression'', AnyString ''true'')]])]"

definition testPayload :: "string \<Rightarrow> string \<Rightarrow> anyval" where
  "testPayload mcName varName = AnyMap (testMap mcName varName)"

definition testTemplate :: "string \<Rightarrow> string \<Rightarrow> anyval \<Rightarrow> ConstraintTemplate" where
  "testTemplate name kind rawSrc =
     \<lparr>ct_Name = name,
      ct_Kind = kind,
      ct_Targets = [\<lparr>Code = [\<lparr>code_Engine = Name, code_Source = Some \<lparr>Value = rawSrc\<rparr>\<rparr>]\<rparr>]\<rparr>"

section \<open>The two compilers\<close>

text \<open>
  \<^verbatim>\<open>TemplateToPolicyDefinition\<close> and \<^verbatim>\<open>ConstraintToBinding\<close> belong to the package
  \<^verbatim>\<open>transform\<close>, of which the repository's files here hold the test only
  (\<^verbatim>\<open>make_vap_objects_test.go\<close>). The two functions are modelled from the specification
  (sections 4.3 and 4.4); the literals the specification leaves open (the name prefix, the
  API version, the names of the synthesized entries, the expression of the parameter
  variable) are those of the values the test expects. The schema functions they call
  are the embedded ones above.
\<close>

subsection \<open>Kubernetes types of the compiled objects\<close>

text \<open>
  The fields of the \<^verbatim>\<open>v1alpha1\<close> types that the expected values of the test set; all
  other fields keep their zero value throughout. A \<open>NamedRuleWithOperations\<close> is
  written flat, with the fields of the structs it embeds.
\<close>

record LabelSelector =
  MatchLabels :: "(string \<times> string) list"
  MatchExpressions :: "(string \<times> string \<times> string list) list"

record ParamKind =
  pk_APIVersion :: string
  pk_Kind :: string

record NamedRuleWithOperations =
  rule_Operations :: "string slice"
  rule_APIGroups :: "string slice"
  rule_APIVersions :: "string slice"
  rule_Resources :: "string slice"

record MatchResources =
  mr_NamespaceSelector :: "LabelSelector option"
  mr_ObjectSelector :: "LabelSelector option"
  mr_ResourceRules :: "NamedRuleWithOperations slice"

record ValidatingAdmissionPolicySpec =
  vap_ParamKind :: "ParamKind option"
  vap_MatchConstraints :: "MatchResources option"
  vap_MatchConditions :: "v1alpha1_MatchCondition slice"
  vap_Validations :: "v1alpha1_Validation slice"
  vap_FailurePolicy :: "admissionv1alpha1_FailurePolicyType option"
  vap_Variables :: "v1alpha1_Variable slice"

record ValidatingAdmissionPolicy =
  vap_Name :: string
  vap_Spec :: ValidatingAdmissionPolicySpec

datatype ParameterNotFoundActionType = AllowAction | DenyAction

datatype ValidationAction = Deny | Warn | Audit

record ParamRef =
  pr_Name :: string
  pr_ParameterNotFoundAction :: "ParameterNotFoundActionType option"

record ValidatingAdmissionPolicyBindingSpec =
  vapb_PolicyName :: string
  vapb_ParamRef :: "ParamRef option"
  vapb_MatchResources :: "MatchResources option"
  vapb_ValidationActions :: "ValidationAction slice"

record ValidatingAdmissionPolicyBinding =
  vapb_Name :: string
  vapb_Spec :: ValidatingAdmissionPolicyBindingSpec

definition OperationAll :: string where
  "OperationAll = ''*''"

subsection \<open>Lower case\<close>

text \<open>
  \<^verbatim>\<open>strings.ToLower\<close> of the Go library: a string of ASCII bytes only has its bytes
  \<^verbatim>\<open>'A'\<close> to \<^verbatim>\<open>'Z'\<close> moved by \<^verbatim>\<open>'a' - 'A'\<close>; any other string is mapped rune by rune with
  \<^verbatim>\<open>unicode.ToLower\<close>, which is the parameter \<open>unicodeLower\<close> here.
\<close>

definition isASCII :: "string \<Rightarrow> bool" where
  "isASCII s = list_all (\<lambda>c. (of_char c :: nat) < 128) s"

definition asciiLower :: "char \<Rightarrow> char" where
  "asciiLower c =
     (if 65 \<le> (of_char c :: nat) \<and> (of_char c :: nat) \<le> 90
      then char_of ((of_char c :: nat) + 32) else c)"

definition ToLower :: "(string \<Rightarrow> string) \<Rightarrow> string \<Rightarrow> string" where
  "ToLower unicodeLower s = (if isASCII s then map asciiLower s else unicodeLower s)"

subsection \<open>The policy definition\<close>

text \<open>
  The four CEL expressions \<^verbatim>\<open>matchExcludedNamespacesGlob\<close>, \<^verbatim>\<open>matchNamespacesGlob\<close>,
  \<^verbatim>\<open>matchNameGlob\<close> and \<^verbatim>\<open>matchKinds\<close> are constants of the package \<^verbatim>\<open>transform\<close> that
  the test names without giving their text: they are a parameter.
\<close>

record cel_snippets =
  matchExcludedNamespacesGlob :: string
  matchNamespacesGlob :: string
  matchNameGlob :: string
  matchKinds :: string

text \<open>
  Modelled from the spec: the fixed name prefix (sections 4.3 step 1 and 4.4 steps 1
  and 2), the fixed API version of the parameter kind (section 4.3 step 2) and the
  expression of the parameter variable (section 4.3 step 6); the three literals are
  those of the objects the test expects.
\<close>

definition namePrefix :: string where
  "namePrefix = ''gatekeeper-''"

definition constraintsAPIVersion :: string where
  "constraintsAPIVersion = ''constraints.gatekeeper.sh/v1beta1''"

definition paramsExpression :: string where
  "paramsExpression =
     ''!has(params.spec) ? null : !has(params.spec.parameters) ? null: params.spec.parameters''"

text \<open>
  Modelled from the spec: the four synthesized match conditions of section 4.3 step 4
  (the function that builds them is not among the files), in the fixed order
  exclude-namespaces, include-namespaces, name glob, kind match, each named with the
  reserved prefix as the test expects.
\<close>

definition AllMatchers :: "cel_snippets \<Rightarrow> v1alpha1_MatchCondition list" where
  "AllMatchers snippets =
     [\<lparr>amc_Name = ReservedPrefix @ ''match_excluded_namespaces'',
       amc_Expression = matchExcludedNamespacesGlob snippets\<rparr>,
      \<lparr>amc_Name = ReservedPrefix @ ''match_namespaces'',
       amc_Expression = matchNamespacesGlob snippets\<rparr>,
      \<lparr>amc_Name = ReservedPrefix @ ''match_name'',
       amc_Expression = matchNameGlob snippets\<rparr>,
      \<lparr>amc_Name = ReservedPrefix @ ''match_kinds'',
       amc_Expression = matchKinds snippets\<rparr>]"

text \<open>
  Modelled from the spec: the one synthesized variable of section 4.3 step 6 (the
  function that builds it is not among the files), bound to the reserved parameter
  name, with the three-level conditional of the test's expected value.
\<close>

definition AllVariables :: "v1alpha1_Variable list" where
  "AllVariables = [\<lparr>avar_Name = ParamsName, avar_Expression = paramsExpression\<rparr>]"

text \<open>
  Modelled from the spec: the default match scope of section 4.3 step 3 (built inside
  the missing \<^verbatim>\<open>TemplateToPolicyDefinition\<close>): every group, version and resource on
  every operation.
\<close>

definition matchEverything :: MatchResources where
  "matchEverything =
     \<lparr>mr_NamespaceSelector = None,
      mr_ObjectSelector = None,
      mr_ResourceRules = Some
        [\<lparr>rule_Operations = Some [OperationAll],
          rule_APIGroups = Some [''*''],
          rule_APIVersions = Some [''*''],
          rule_Resources = Some [''*'']\<rparr>]\<rparr>"

text \<open>
  Modelled from the spec: \<^verbatim>\<open>TemplateToPolicyDefinition\<close> (file
  \<^verbatim>\<open>transform/make_vap_objects.go\<close>, not among the files), after section 4.3. The source
  is read and validated with \<open>GetSourceFromTemplate\<close>; any error aborts with a \<^verbatim>\<open>nil\<close>
  result before anything is built. Then: the name is the prefix and the lower-cased
  kind (step 1); the parameter kind has the fixed API version and the template's kind
  (step 2); the match scope is the catch-all (step 3); the match conditions are the
  user's, then the four synthesized ones (step 4); validations and failure policy are
  the output of the adapters (step 5); the variables are the user's, then the
  synthesized one (step 6). A \<^verbatim>\<open>nil\<close> source without an error would be dereferenced.
\<close>

definition TemplateToPolicyDefinition ::
  "cel_snippets \<Rightarrow> (string \<Rightarrow> string) \<Rightarrow> converter \<Rightarrow> ConstraintTemplate
     \<Rightarrow> (ValidatingAdmissionPolicy option \<times> error option) outcome" where
  "TemplateToPolicyDefinition snippets unicodeLower FromUnstructured template =
     (case GetSourceFromTemplate FromUnstructured template of
        Panic \<Rightarrow> Panic
      | Return (_, Some err) \<Rightarrow> Return (None, Some err)
      | Return (None, None) \<Rightarrow> Panic
      | Return (Some source, None) \<Rightarrow>
          (case GetV1Alpha1MatchConditions source of
             (_, Some err) \<Rightarrow> Return (None, Some err)
           | (matchConditions, None) \<Rightarrow>
          (case GetV1Alpha1Validatons source of
             (_, Some err) \<Rightarrow> Return (None, Some err)
           | (validations, None) \<Rightarrow>
          (case GetV1Alpha1Variables source of
             (_, Some err) \<Rightarrow> Return (None, Some err)
           | (variables, None) \<Rightarrow>
          (case GetV1alpha1FailurePolicy source of
             (_, Some err) \<Rightarrow> Return (None, Some err)
           | (failurePolicy, None) \<Rightarrow>
               Return
                 (Some
                    \<lparr>vap_Name = namePrefix @ ToLower unicodeLower (ct_Kind template),
                     vap_Spec =
                       \<lparr>vap_ParamKind = Some
                          \<lparr>pk_APIVersion = constraintsAPIVersion, pk_Kind = ct_Kind template\<rparr>,
                        vap_MatchConstraints = Some matchEverything,
                        vap_MatchConditions = append_slice matchConditions (AllMatchers snippets),
                        vap_Validations = validations,
                        vap_FailurePolicy = failurePolicy,
                        vap_Variables = append_slice variables AllVariables\<rparr>\<rparr>,
                  None))))))"

subsection \<open>The policy binding\<close>

text \<open>
  Modelled from the spec: the instance handed to \<^verbatim>\<open>ConstraintToBinding\<close> (input B of
  section 6): a named object with a kind, the optional selectors
  \<^verbatim>\<open>spec.match.namespaceSelector\<close> and \<^verbatim>\<open>spec.match.labelSelector\<close>, and the optional string
  \<^verbatim>\<open>spec.enforcementAction\<close>.
\<close>

record Constraint =
  c_Name :: string
  c_Kind :: string
  c_NamespaceSelector :: "LabelSelector option"
  c_LabelSelector :: "LabelSelector option"
  c_EnforcementAction :: "string option"

text \<open>
  Modelled from the spec: the enforcement-action mapping of section 4.4 step 5 (part of
  the missing \<^verbatim>\<open>ConstraintToBinding\<close>). Absent and \<^verbatim>\<open>"deny"\<close> give \<open>Deny\<close>, \<^verbatim>\<open>"warn"\<close> gives
  \<open>Warn\<close>, any other string an error that wraps \<open>ErrBadEnforcementAction\<close> and names the
  string. The spec does not give the text of the message: the model's message is the
  offending string after a colon.
\<close>

definition enforcementAction :: "string option \<Rightarrow> error + ValidationAction" where
  "enforcementAction a =
     (case a of
        None \<Rightarrow> Inr Deny
      | Some s \<Rightarrow>
          if s = ''deny'' then Inr Deny
          else if s = ''warn'' then Inr Warn
          else Inl (Errorf ErrBadEnforcementAction ('': '' @ s)))"

text \<open>
  Modelled from the spec: \<^verbatim>\<open>ConstraintToBinding\<close> (file
  \<^verbatim>\<open>transform/make_vap_objects.go\<close>, not among the files), after section 4.4: the name is
  the prefix and the instance's name (step 1); the policy name is the prefix and the
  lower-cased kind (step 2); the parameter reference is the instance's name with the
  not-found action \<open>AllowAction\<close> (step 3); the match resources hold the two selectors
  as they are, and are the zero value when there is none (step 4); the action list has
  the one action of the mapping, whose error aborts with a \<^verbatim>\<open>nil\<close> result (step 5).
\<close>

definition ConstraintToBinding ::
  "(string \<Rightarrow> string) \<Rightarrow> Constraint \<Rightarrow> ValidatingAdmissionPolicyBinding option \<times> error option" where
  "ConstraintToBinding unicodeLower constraint =
     (case enforcementAction (c_EnforcementAction constraint) of
        Inl err \<Rightarrow> (None, Some err)
      | Inr action \<Rightarrow>
          (Some
             \<lparr>vapb_Name = namePrefix @ c_Name constraint,
              vapb_Spec =
                \<lparr>vapb_PolicyName = namePrefix @ ToLower unicodeLower (c_Kind constraint),
                 vapb_ParamRef = Some
                   \<lparr>pr_Name = c_Name constraint,
                    pr_ParameterNotFoundAction = Some AllowAction\<rparr>,
                 vapb_MatchResources = Some
                   \<lparr>mr_NamespaceSelector = c_NamespaceSelector constraint,
                    mr_ObjectSelector = c_LabelSelector constraint,
                    mr_ResourceRules = None\<rparr>,
                 vapb_ValidationActions = Some [action]\<rparr>\<rparr>,
           None))"

text \<open>The constraint that \<^verbatim>\<open>newTestConstraint\<close> of the test builds; it leaves an empty action unset.\<close>

definition newTestConstraint ::
  "string \<Rightarrow> LabelSelector option \<Rightarrow> LabelSelector option \<Rightarrow> Constraint" where
  "newTestConstraint action namespaceSelector labelSelector =
     \<lparr>c_Name = ''foo-name'',
      c_Kind = ''FooTemplate'',
      c_NamespaceSelector = namespaceSelector,
      c_LabelSelector = labelSelector,
      c_EnforcementAction = (if action \<noteq> [] then Some action else None)\<rparr>"

text \<open>Some value for the four expressions, to run the compiler on the templates of the test.\<close>

definition testSnippets :: cel_snippets where
  "testSnippets =
     \<lparr>matchExcludedNamespacesGlob = ''excluded'',
      matchNamespacesGlob = ''namespaces'',
      matchNameGlob = ''name'',
      matchKinds = ''kinds''\<rparr>"

subsection \<open>Names for the conditions of the two naming rules\<close>

definition reservedMatchCondition :: "MatchCondition \<Rightarrow> bool" where
  "reservedMatchCondition mc = HasPrefix (mc_Name mc) ReservedPrefix"

definition invalidVariable :: "Variable \<Rightarrow> bool" where
  "invalidVariable v = (HasPrefix (var_Name v) ReservedPrefix \<or> var_Name v = ParamsName)"

section \<open>Properties of the schema package\<close>

text \<open>Unfolding the inputs of the tests and the constants, for evaluation.\<close>

lemmas test_inputs =
  validSource_def invalidMatchConditionSource_def invalidVariableSource_def
  clobberingParamsSource_def clashingSource_def testSource_def testValidation_def

lemmas constants = HasPrefix_def ReservedPrefix_def ParamsName_def quoted_def

subsection \<open>The loops\<close>

lemma validateMatchConditions_loop_None:
  "validateMatchConditions_loop mcs = None \<longleftrightarrow> list_all (\<lambda>mc. \<not> reservedMatchCondition mc) mcs"
  by (induction mcs) (simp_all add: reservedMatchCondition_def)

lemma validateMatchConditions_loop_find:
  "validateMatchConditions_loop mcs =
     map_option (\<lambda>mc. badMatchCondition (mc_Name mc)) (find reservedMatchCondition mcs)"
  by (induction mcs) (simp_all add: reservedMatchCondition_def)

lemma validateVariables_loop_None:
  "validateVariables_loop vs = None \<longleftrightarrow> list_all (\<lambda>v. \<not> invalidVariable v) vs"
  by (induction vs) (simp_all add: invalidVariable_def)

lemma validateVariables_loop_find:
  "validateVariables_loop vs =
     map_option (\<lambda>v. if HasPrefix (var_Name v) ReservedPrefix
                      then badVariablePrefix (var_Name v) else badVariableParams)
       (find invalidVariable vs)"
  by (induction vs) (simp_all add: invalidVariable_def)

lemma range_loop_update:
  "i + length xs \<le> length out \<Longrightarrow>
   range_loop (\<lambda>i x out. out[i := f x]) xs i out
     = take i out @ map f xs @ drop (i + length xs) out"
proof (induction xs arbitrary: i out)
  case Nil
  then show ?case by simp
next
  case (Cons x xs)
  have "take (Suc i) (out[i := f x]) = take i out @ [f x]"
    using Cons.prems by (simp add: take_Suc_conv_app_nth)
  moreover have "drop (Suc i + length xs) (out[i := f x]) = drop (Suc i + length xs) out"
    by simp
  ultimately show ?case
    using Cons.IH [of "Suc i" "out[i := f x]"] Cons.prems by simp
qed

lemma range_loop_fill:
  "range_loop (\<lambda>i x out. out[i := f x]) xs 0 (replicate (length xs) z) = map f xs"
  using range_loop_update [of 0 xs "replicate (length xs) z" f] by simp

lemma range_loop_update_if:
  assumes "i + length xs \<le> length out"
    and "\<forall>k. i \<le> k \<and> k < length out \<longrightarrow> out ! k = None"
  shows "range_loop (\<lambda>i x out. if c x then out[i := Some (g x)] else out) xs i out
     = range_loop (\<lambda>i x out. out[i := (if c x then Some (g x) else None)]) xs i out"
  using assms
proof (induction xs arbitrary: i out)
  case Nil
  show ?case by simp
next
  case (Cons x xs)
  let ?out = "out[i := (if c x then Some (g x) else None)]"
  have "out ! i = None"
    using Cons.prems by simp
  then have "out[i := None] = out"
    by (metis list_update_id)
  then have step: "(if c x then out[i := Some (g x)] else out) = ?out"
    by simp
  have "Suc i + length xs \<le> length ?out"
    using Cons.prems by simp
  moreover have "\<forall>k. Suc i \<le> k \<and> k < length ?out \<longrightarrow> ?out ! k = None"
    using Cons.prems by simp
  ultimately show ?case
    using Cons.IH [of "Suc i" ?out] by (simp add: step)
qed

lemma range_loop_fill_if:
  "range_loop (\<lambda>i x out. if c x then out[i := Some (g x)] else out) xs 0
      (replicate (length xs) None)
     = map (\<lambda>x. if c x then Some (g x) else None) xs"
  using range_loop_update_if [of 0 xs "replicate (length xs) None" c g]
  by (simp add: range_loop_fill)

lemma range_loop_append:
  "range_loop (\<lambda>i x acc. append_slice acc [f x]) xs i (Some ys) = Some (ys @ map f xs)"
  by (induction xs arbitrary: i ys) simp_all

lemma range_loop_append_nil:
  "range_loop (\<lambda>i x acc. append_slice acc [f x]) xs 0 None
     = (if xs = [] then None else Some (map f xs))"
  by (cases xs) (simp_all add: range_loop_append)

subsection \<open>The naming rules\<close>

lemma validateMatchConditions_first:
  assumes "\<exists>mc\<in>set (MatchConditions src). HasPrefix (mc_Name mc) ReservedPrefix"
  obtains mc where "find (\<lambda>mc. HasPrefix (mc_Name mc) ReservedPrefix) (MatchConditions src) = Some mc"
    and "validateMatchConditions src = Some (badMatchCondition (mc_Name mc))"
proof -
  have "find reservedMatchCondition (MatchConditions src) \<noteq> None"
    using assms by (auto simp add: find_None_iff reservedMatchCondition_def)
  then obtain mc where f: "find reservedMatchCondition (MatchConditions src) = Some mc"
    by blast
  have "reservedMatchCondition = (\<lambda>mc. HasPrefix (mc_Name mc) ReservedPrefix)"
    by (rule ext) (simp add: reservedMatchCondition_def)
  with f have "find (\<lambda>mc. HasPrefix (mc_Name mc) ReservedPrefix) (MatchConditions src) = Some mc"
    by simp
  moreover have "validateMatchConditions src = Some (badMatchCondition (mc_Name mc))"
    by (simp add: validateMatchConditions_def validateMatchConditions_loop_find f)
  ultimately show thesis by (rule that)
qed

lemma validateVariables_invalid:
  assumes "\<exists>v\<in>set (Variables src). HasPrefix (var_Name v) ReservedPrefix \<or> var_Name v = ParamsName"
  obtains e where "validateVariables src = Some e" and "errors_Is e ErrBadVariable"
proof -
  have "find invalidVariable (Variables src) \<noteq> None"
    using assms by (auto simp add: find_None_iff invalidVariable_def)
  then obtain v where f: "find invalidVariable (Variables src) = Some v"
    by blast
  let ?e = "if HasPrefix (var_Name v) ReservedPrefix
            then badVariablePrefix (var_Name v) else badVariableParams"
  have "validateVariables src = Some ?e"
    by (simp add: validateVariables_def validateVariables_loop_find f)
  moreover have "errors_Is ?e ErrBadVariable"
    by (simp add: badVariablePrefix_def badVariableParams_def)
  ultimately show thesis by (rule that)
qed

lemma validateMatchConditions_None:
  "validateMatchConditions src = None \<longleftrightarrow>
     (\<forall>mc\<in>set (MatchConditions src). \<not> HasPrefix (mc_Name mc) ReservedPrefix)"
  by (simp add: validateMatchConditions_def validateMatchConditions_loop_None
      reservedMatchCondition_def list_all_iff)

lemma validateVariables_None:
  "validateVariables src = None \<longleftrightarrow>
     (\<forall>v\<in>set (Variables src). \<not> HasPrefix (var_Name v) ReservedPrefix \<and> var_Name v \<noteq> ParamsName)"
  by (simp add: validateVariables_def validateVariables_loop_None
      invalidVariable_def list_all_iff)

subsection \<open>Validate accepts well-named sources\<close>

text \<open>
  Claim C6. For every source in which no match-condition name and no variable name starts
  with the reserved prefix, no variable is named \<^verbatim>\<open>params\<close>, and the failure policy is
  absent, \<^verbatim>\<open>"Fail"\<close> or \<^verbatim>\<open>"Ignore"\<close>, \<open>Validate\<close> returns \<^verbatim>\<open>nil\<close>.
\<close>

theorem Validate_accepts:
  assumes "\<forall>mc\<in>set (MatchConditions src). \<not> HasPrefix (mc_Name mc) ReservedPrefix"
    and "\<forall>v\<in>set (Variables src). \<not> HasPrefix (var_Name v) ReservedPrefix \<and> var_Name v \<noteq> ParamsName"
    and "FailurePolicy src = None \<or> FailurePolicy src = Some ''Fail'' \<or> FailurePolicy src = Some ''Ignore''"
  shows "Validate src = None"
proof -
  have mc: "validateMatchConditions src = None"
    using assms(1) by (simp add: validateMatchConditions_None)
  have v: "validateVariables src = None"
    using assms(2) by (simp add: validateVariables_None)
  have fp: "snd (GetFailurePolicy src) = None"
    using assms(3)
    by (auto simp add: GetFailurePolicy_def admissionv1_Fail_def admissionv1_Ignore_def)
  show ?thesis
    by (simp add: Validate_def mc v fp)
qed

theorem Validate_accepts_witness:
  "Validate validSource = None \<and> Validate (validSource\<lparr>FailurePolicy := None\<rparr>) = None
   \<and> Validate (validSource\<lparr>FailurePolicy := Some ''Ignore''\<rparr>) = None"
proof (intro conjI)
  show "Validate validSource = None"
    by (rule Validate_accepts)
       (simp_all add: validSource_def testSource_def HasPrefix_def ReservedPrefix_def ParamsName_def)
  show "Validate (validSource\<lparr>FailurePolicy := None\<rparr>) = None"
    by (rule Validate_accepts)
       (simp_all add: validSource_def testSource_def HasPrefix_def ReservedPrefix_def ParamsName_def)
  show "Validate (validSource\<lparr>FailurePolicy := Some ''Ignore''\<rparr>) = None"
    by (rule Validate_accepts)
       (simp_all add: validSource_def testSource_def HasPrefix_def ReservedPrefix_def ParamsName_def)
qed


subsection \<open>The failure policy\<close>

text \<open>
  Claim C7. \<open>GetFailurePolicy\<close> and \<open>GetV1alpha1FailurePolicy\<close> return \<^verbatim>\<open>(nil, nil)\<close> for an
  absent failure policy, map exactly the strings \<^verbatim>\<open>"Fail"\<close> and \<^verbatim>\<open>"Ignore"\<close> to the
  constant of the target type, and for every other string return a \<^verbatim>\<open>nil\<close> value with an
  error that wraps \<open>ErrBadFailurePolicy\<close> and ends in the offending string.
\<close>

theorem failure_policy_mapping:
  "(FailurePolicy src = None \<longrightarrow>
      GetFailurePolicy src = (None, None) \<and> GetV1alpha1FailurePolicy src = (None, None))
   \<and> (FailurePolicy src = Some ''Fail'' \<longrightarrow>
      GetFailurePolicy src = (Some admissionv1_Fail, None)
      \<and> GetV1alpha1FailurePolicy src = (Some admissionv1alpha1_Fail, None))
   \<and> (FailurePolicy src = Some ''Ignore'' \<longrightarrow>
      GetFailurePolicy src = (Some admissionv1_Ignore, None)
      \<and> GetV1alpha1FailurePolicy src = (Some admissionv1alpha1_Ignore, None))
   \<and> (\<forall>p. FailurePolicy src = Some p \<and> p \<noteq> ''Fail'' \<and> p \<noteq> ''Ignore'' \<longrightarrow>
      GetFailurePolicy src
        = (None, Some (Errorf ErrBadFailurePolicy ('': unrecognized failure policy: '' @ p)))
      \<and> GetV1alpha1FailurePolicy src
        = (None, Some (Errorf ErrBadFailurePolicy ('': unrecognized failure policy: '' @ p)))
      \<and> errors_Is (Errorf ErrBadFailurePolicy ('': unrecognized failure policy: '' @ p))
            ErrBadFailurePolicy)"
  by (simp add: GetFailurePolicy_def GetV1alpha1FailurePolicy_def badFailurePolicy_def
      admissionv1_Fail_def admissionv1_Ignore_def)

theorem failure_policy_mapping_witness:
  "GetFailurePolicy (validSource\<lparr>FailurePolicy := None\<rparr>) = (None, None)
   \<and> GetV1alpha1FailurePolicy (validSource\<lparr>FailurePolicy := None\<rparr>) = (None, None)
   \<and> GetFailurePolicy validSource = (Some admissionv1_Fail, None)
   \<and> GetV1alpha1FailurePolicy validSource = (Some admissionv1alpha1_Fail, None)
   \<and> GetFailurePolicy (validSource\<lparr>FailurePolicy := Some ''Ignore''\<rparr>)
        = (Some admissionv1_Ignore, None)
   \<and> GetV1alpha1FailurePolicy (validSource\<lparr>FailurePolicy := Some ''Ignore''\<rparr>)
        = (Some admissionv1alpha1_Ignore, None)
   \<and> GetFailurePolicy (validSource\<lparr>FailurePolicy := Some ''fail''\<rparr>)
        = (None, Some (Errorf ErrBadFailurePolicy '': unrecognized failure policy: fail''))
   \<and> GetV1alpha1FailurePolicy (validSource\<lparr>FailurePolicy := Some ''fail''\<rparr>)
        = (None, Some (Errorf ErrBadFailurePolicy '': unrecognized failure policy: fail''))"
proof -
  have fp: "FailurePolicy validSource = Some ''Fail''"
    by (simp add: validSource_def testSource_def)
  show ?thesis
    using failure_policy_mapping [of "validSource\<lparr>FailurePolicy := None\<rparr>"]
      failure_policy_mapping [of validSource]
      failure_policy_mapping [of "validSource\<lparr>FailurePolicy := Some ''Ignore''\<rparr>"]
      failure_policy_mapping [of "validSource\<lparr>FailurePolicy := Some ''fail''\<rparr>"]
    by (simp add: fp)
qed

subsection \<open>Reserved names are rejected\<close>

lemma GetMatchConditions_error:
  "validateMatchConditions src = Some e \<Longrightarrow>
   GetMatchConditions src = (None, Some e) \<and> GetV1Alpha1MatchConditions src = (None, Some e)"
  by (simp add: GetMatchConditions_def GetV1Alpha1MatchConditions_def)

lemma GetVariables_error:
  "validateVariables src = Some e \<Longrightarrow>
   GetVariables src = (None, Some e) \<and> GetV1Alpha1Variables src = (None, Some e)"
  by (simp add: GetVariables_def GetV1Alpha1Variables_def)

lemma Validate_match_condition_error:
  "validateMatchConditions src = Some e \<Longrightarrow> Validate src = Some e"
  by (simp add: Validate_def)

lemma Validate_variable_error:
  "validateMatchConditions src = None \<Longrightarrow> validateVariables src = Some e \<Longrightarrow> Validate src = Some e"
  by (simp add: Validate_def)

lemma Validate_failure_policy:
  "validateMatchConditions src = None \<Longrightarrow> validateVariables src = None \<Longrightarrow>
   Validate src = snd (GetFailurePolicy src)"
  by (simp add: Validate_def split: option.split)

text \<open>
  Claim C3, as amended. Whenever a match-condition name starts with the reserved prefix,
  \<open>Validate\<close>, \<open>GetMatchConditions\<close> and \<open>GetV1Alpha1MatchConditions\<close> fail with an
  error that wraps \<open>ErrBadMatchCondition\<close> and names the first such entry and the prefix,
  and the accessors return a \<^verbatim>\<open>nil\<close> list. Whenever a variable name starts with the
  prefix or is \<^verbatim>\<open>params\<close>, \<open>GetVariables\<close> and \<open>GetV1Alpha1Variables\<close> fail with an
  error that wraps \<open>ErrBadVariable\<close> and return a \<^verbatim>\<open>nil\<close> list, and so does \<open>Validate\<close>
  provided no match-condition name starts with the reserved prefix.
\<close>

theorem reserved_names_rejected:
  "((\<exists>mc\<in>set (MatchConditions src). HasPrefix (mc_Name mc) ReservedPrefix) \<longrightarrow>
      (\<exists>mc e. find (\<lambda>mc. HasPrefix (mc_Name mc) ReservedPrefix) (MatchConditions src) = Some mc
         \<and> e = Errorf ErrBadMatchCondition
                 ('': '' @ mc_Name mc @ '' is not a valid match condition; cannot have ''
                    @ quoted ReservedPrefix @ '' as a prefix'')
         \<and> errors_Is e ErrBadMatchCondition
         \<and> Validate src = Some e
         \<and> GetMatchConditions src = (None, Some e)
         \<and> GetV1Alpha1MatchConditions src = (None, Some e)))
   \<and> ((\<exists>v\<in>set (Variables src). HasPrefix (var_Name v) ReservedPrefix \<or> var_Name v = ParamsName) \<longrightarrow>
      (\<exists>e. errors_Is e ErrBadVariable
         \<and> GetVariables src = (None, Some e)
         \<and> GetV1Alpha1Variables src = (None, Some e)
         \<and> ((\<forall>mc\<in>set (MatchConditions src). \<not> HasPrefix (mc_Name mc) ReservedPrefix) \<longrightarrow>
               Validate src = Some e)))"
proof (intro conjI impI)
  assume "\<exists>mc\<in>set (MatchConditions src). HasPrefix (mc_Name mc) ReservedPrefix"
  then obtain mc
    where first: "find (\<lambda>mc. HasPrefix (mc_Name mc) ReservedPrefix) (MatchConditions src) = Some mc"
      and err: "validateMatchConditions src = Some (badMatchCondition (mc_Name mc))"
    by (rule validateMatchConditions_first)
  show "\<exists>mc e. find (\<lambda>mc. HasPrefix (mc_Name mc) ReservedPrefix) (MatchConditions src) = Some mc
         \<and> e = Errorf ErrBadMatchCondition
                 ('': '' @ mc_Name mc @ '' is not a valid match condition; cannot have ''
                    @ quoted ReservedPrefix @ '' as a prefix'')
         \<and> errors_Is e ErrBadMatchCondition
         \<and> Validate src = Some e
         \<and> GetMatchConditions src = (None, Some e)
         \<and> GetV1Alpha1MatchConditions src = (None, Some e)"
    using first GetMatchConditions_error [OF err] Validate_match_condition_error [OF err]
    by (simp add: badMatchCondition_def)
next
  assume "\<exists>v\<in>set (Variables src). HasPrefix (var_Name v) ReservedPrefix \<or> var_Name v = ParamsName"
  then obtain e where err: "validateVariables src = Some e" and bad: "errors_Is e ErrBadVariable"
    by (rule validateVariables_invalid)
  have "(\<forall>mc\<in>set (MatchConditions src). \<not> HasPrefix (mc_Name mc) ReservedPrefix) \<longrightarrow>
          Validate src = Some e"
    using Validate_variable_error [OF _ err] by (simp add: validateMatchConditions_None)
  then show "\<exists>e. errors_Is e ErrBadVariable
         \<and> GetVariables src = (None, Some e)
         \<and> GetV1Alpha1Variables src = (None, Some e)
         \<and> ((\<forall>mc\<in>set (MatchConditions src). \<not> HasPrefix (mc_Name mc) ReservedPrefix) \<longrightarrow>
               Validate src = Some e)"
    using bad GetVariables_error [OF err] by blast
qed

theorem reserved_names_rejected_witness:
  "Validate invalidMatchConditionSource
      = Some (Errorf ErrBadMatchCondition
          ('': gatekeeper_internal_match_something is not a valid match condition; cannot have ''
             @ quoted ''gatekeeper_internal_'' @ '' as a prefix''))
   \<and> GetMatchConditions invalidMatchConditionSource
      = (None, Validate invalidMatchConditionSource)
   \<and> GetV1Alpha1MatchConditions invalidMatchConditionSource
      = (None, Validate invalidMatchConditionSource)
   \<and> (\<exists>e. errors_Is e ErrBadVariable
         \<and> Validate invalidVariableSource = Some e
         \<and> GetVariables invalidVariableSource = (None, Some e)
         \<and> GetV1Alpha1Variables invalidVariableSource = (None, Some e))
   \<and> (\<exists>e. errors_Is e ErrBadVariable
         \<and> Validate clobberingParamsSource = Some e
         \<and> GetVariables clobberingParamsSource = (None, Some e)
         \<and> GetV1Alpha1Variables clobberingParamsSource = (None, Some e))"
proof -
  let ?reserved = "\<lambda>mc. HasPrefix (mc_Name mc) ReservedPrefix"
  let ?invalid = "\<lambda>v. HasPrefix (var_Name v) ReservedPrefix \<or> var_Name v = ParamsName"
  have first: "find ?reserved (MatchConditions invalidMatchConditionSource)
      = Some \<lparr>mc_Name = ''gatekeeper_internal_match_something'', mc_Expression = ''true == true''\<rparr>"
    by (simp add: test_inputs constants)
  have "\<exists>mc\<in>set (MatchConditions invalidMatchConditionSource). ?reserved mc"
    by (simp add: test_inputs constants)
  with reserved_names_rejected [of invalidMatchConditionSource, THEN conjunct1]
  obtain mc' e where found: "find ?reserved (MatchConditions invalidMatchConditionSource) = Some mc'"
    and e: "e = Errorf ErrBadMatchCondition
                 ('': '' @ mc_Name mc' @ '' is not a valid match condition; cannot have ''
                    @ quoted ReservedPrefix @ '' as a prefix'')"
    and res: "Validate invalidMatchConditionSource = Some e"
      "GetMatchConditions invalidMatchConditionSource = (None, Some e)"
      "GetV1Alpha1MatchConditions invalidMatchConditionSource = (None, Some e)"
    by blast
  from found first
  have "mc' = \<lparr>mc_Name = ''gatekeeper_internal_match_something'', mc_Expression = ''true == true''\<rparr>"
    by simp
  then have "mc_Name mc' = ''gatekeeper_internal_match_something''"
    by simp
  with e have "e = Errorf ErrBadMatchCondition
          ('': gatekeeper_internal_match_something is not a valid match condition; cannot have ''
             @ quoted ''gatekeeper_internal_'' @ '' as a prefix'')"
    by (simp add: ReservedPrefix_def)
  with res
  have mc: "Validate invalidMatchConditionSource
      = Some (Errorf ErrBadMatchCondition
          ('': gatekeeper_internal_match_something is not a valid match condition; cannot have ''
             @ quoted ''gatekeeper_internal_'' @ '' as a prefix''))
    \<and> GetMatchConditions invalidMatchConditionSource
      = (None, Validate invalidMatchConditionSource)
    \<and> GetV1Alpha1MatchConditions invalidMatchConditionSource
      = (None, Validate invalidMatchConditionSource)"
    by simp
  have "\<exists>v\<in>set (Variables invalidVariableSource). ?invalid v"
    and "\<forall>mc\<in>set (MatchConditions invalidVariableSource). \<not> ?reserved mc"
    by (simp_all add: test_inputs constants)
  with reserved_names_rejected [of invalidVariableSource, THEN conjunct2]
  have v1: "\<exists>e. errors_Is e ErrBadVariable
         \<and> Validate invalidVariableSource = Some e
         \<and> GetVariables invalidVariableSource = (None, Some e)
         \<and> GetV1Alpha1Variables invalidVariableSource = (None, Some e)"
    by blast
  have "\<exists>v\<in>set (Variables clobberingParamsSource). ?invalid v"
    and "\<forall>mc\<in>set (MatchConditions clobberingParamsSource). \<not> ?reserved mc"
    by (simp_all add: test_inputs constants)
  with reserved_names_rejected [of clobberingParamsSource, THEN conjunct2]
  have v2: "\<exists>e. errors_Is e ErrBadVariable
         \<and> Validate clobberingParamsSource = Some e
         \<and> GetVariables clobberingParamsSource = (None, Some e)
         \<and> GetV1Alpha1Variables clobberingParamsSource = (None, Some e)"
    by blast
  from mc v1 v2 show ?thesis by (intro conjI) (elim conjE, assumption)+
qed

text \<open>
  The claim as first stated has \<open>Validate\<close> fail with \<open>ErrBadVariable\<close> for every source
  with an invalid variable name. On \<open>clashingSource\<close> the variable is named
  \<^verbatim>\<open>params\<close>, and \<open>Validate\<close> returns the match-condition error, which does not wrap
  \<open>ErrBadVariable\<close>.
\<close>

theorem Validate_variable_counterexample:
  "list_ex (\<lambda>v. HasPrefix (var_Name v) ReservedPrefix \<or> var_Name v = ParamsName)
      (Variables clashingSource)
   \<and> Validate clashingSource
      = Some (Errorf ErrBadMatchCondition
          ('': gatekeeper_internal_match_something is not a valid match condition; cannot have ''
             @ quoted ''gatekeeper_internal_'' @ '' as a prefix''))
   \<and> \<not> errors_Is (Errorf ErrBadMatchCondition
          ('': gatekeeper_internal_match_something is not a valid match condition; cannot have ''
             @ quoted ''gatekeeper_internal_'' @ '' as a prefix'')) ErrBadVariable"
  by (simp add: test_inputs constants Validate_def validateMatchConditions_def
      badMatchCondition_def)

subsection \<open>The order of the checks in Validate\<close>

text \<open>
  Claim C10. \<open>Validate\<close> checks the match-condition names, then the variable names,
  then the failure policy, and returns the first error: with a reserved match-condition
  name the result is the error of \<open>validateMatchConditions\<close>, which wraps
  \<open>ErrBadMatchCondition\<close> and neither \<open>ErrBadVariable\<close> nor \<open>ErrBadFailurePolicy\<close>,
  whatever the variables and the failure policy are; with no such name and an invalid
  variable name it is the error of \<open>validateVariables\<close>, whatever the failure policy is;
  otherwise it is the error of \<open>GetFailurePolicy\<close>.
\<close>

theorem Validate_first_error:
  "((\<exists>mc\<in>set (MatchConditions src). HasPrefix (mc_Name mc) ReservedPrefix) \<longrightarrow>
      (\<exists>e. Validate src = Some e \<and> validateMatchConditions src = Some e
         \<and> errors_Is e ErrBadMatchCondition
         \<and> \<not> errors_Is e ErrBadVariable \<and> \<not> errors_Is e ErrBadFailurePolicy))
   \<and> ((\<forall>mc\<in>set (MatchConditions src). \<not> HasPrefix (mc_Name mc) ReservedPrefix)
        \<and> (\<exists>v\<in>set (Variables src). HasPrefix (var_Name v) ReservedPrefix \<or> var_Name v = ParamsName) \<longrightarrow>
      (\<exists>e. Validate src = Some e \<and> validateVariables src = Some e
         \<and> errors_Is e ErrBadVariable \<and> \<not> errors_Is e ErrBadFailurePolicy))
   \<and> ((\<forall>mc\<in>set (MatchConditions src). \<not> HasPrefix (mc_Name mc) ReservedPrefix)
        \<and> (\<forall>v\<in>set (Variables src). \<not> HasPrefix (var_Name v) ReservedPrefix \<and> var_Name v \<noteq> ParamsName) \<longrightarrow>
      Validate src = snd (GetFailurePolicy src))"
proof (intro conjI impI)
  assume "\<exists>mc\<in>set (MatchConditions src). HasPrefix (mc_Name mc) ReservedPrefix"
  then obtain mc
    where "find (\<lambda>mc. HasPrefix (mc_Name mc) ReservedPrefix) (MatchConditions src) = Some mc"
      and err: "validateMatchConditions src = Some (badMatchCondition (mc_Name mc))"
    by (rule validateMatchConditions_first)
  let ?e = "badMatchCondition (mc_Name mc)"
  have "errors_Is ?e ErrBadMatchCondition" "\<not> errors_Is ?e ErrBadVariable"
    "\<not> errors_Is ?e ErrBadFailurePolicy"
    by (simp_all add: badMatchCondition_def)
  with err Validate_match_condition_error [OF err]
  show "\<exists>e. Validate src = Some e \<and> validateMatchConditions src = Some e
         \<and> errors_Is e ErrBadMatchCondition
         \<and> \<not> errors_Is e ErrBadVariable \<and> \<not> errors_Is e ErrBadFailurePolicy"
    by blast
next
  assume a: "(\<forall>mc\<in>set (MatchConditions src). \<not> HasPrefix (mc_Name mc) ReservedPrefix)
        \<and> (\<exists>v\<in>set (Variables src). HasPrefix (var_Name v) ReservedPrefix \<or> var_Name v = ParamsName)"
  then have mc: "validateMatchConditions src = None"
    by (simp add: validateMatchConditions_None)
  from a have "\<exists>v\<in>set (Variables src). HasPrefix (var_Name v) ReservedPrefix \<or> var_Name v = ParamsName"
    by (rule conjunct2)
  then obtain e where err: "validateVariables src = Some e" and bad: "errors_Is e ErrBadVariable"
    by (rule validateVariables_invalid)
  from bad have "\<not> errors_Is e ErrBadFailurePolicy"
    by (cases e) auto
  with err bad Validate_variable_error [OF mc err]
  show "\<exists>e. Validate src = Some e \<and> validateVariables src = Some e
         \<and> errors_Is e ErrBadVariable \<and> \<not> errors_Is e ErrBadFailurePolicy"
    by blast
next
  assume "(\<forall>mc\<in>set (MatchConditions src). \<not> HasPrefix (mc_Name mc) ReservedPrefix)
        \<and> (\<forall>v\<in>set (Variables src). \<not> HasPrefix (var_Name v) ReservedPrefix \<and> var_Name v \<noteq> ParamsName)"
  then have "validateMatchConditions src = None" "validateVariables src = None"
    by (simp_all add: validateMatchConditions_None validateVariables_None)
  then show "Validate src = snd (GetFailurePolicy src)"
    by (rule Validate_failure_policy)
qed

theorem Validate_first_error_witness:
  "(\<exists>e. Validate (clashingSource\<lparr>FailurePolicy := Some ''Sometimes''\<rparr>) = Some e
       \<and> errors_Is e ErrBadMatchCondition \<and> \<not> errors_Is e ErrBadVariable)
   \<and> (\<exists>e. Validate (clobberingParamsSource\<lparr>FailurePolicy := Some ''Sometimes''\<rparr>) = Some e
       \<and> errors_Is e ErrBadVariable \<and> \<not> errors_Is e ErrBadFailurePolicy)
   \<and> Validate (validSource\<lparr>FailurePolicy := Some ''Sometimes''\<rparr>)
       = Some (Errorf ErrBadFailurePolicy '': unrecognized failure policy: Sometimes'')"
proof -
  let ?reserved = "\<lambda>mc. HasPrefix (mc_Name mc) ReservedPrefix"
  let ?invalid = "\<lambda>v. HasPrefix (var_Name v) ReservedPrefix \<or> var_Name v = ParamsName"
  let ?A = "clashingSource\<lparr>FailurePolicy := Some ''Sometimes''\<rparr>"
  let ?B = "clobberingParamsSource\<lparr>FailurePolicy := Some ''Sometimes''\<rparr>"
  let ?C = "validSource\<lparr>FailurePolicy := Some ''Sometimes''\<rparr>"
  have "\<exists>mc\<in>set (MatchConditions ?A). ?reserved mc"
    by (simp add: test_inputs constants)
  with Validate_first_error [of ?A, THEN conjunct1]
  have a: "\<exists>e. Validate ?A = Some e
       \<and> errors_Is e ErrBadMatchCondition \<and> \<not> errors_Is e ErrBadVariable"
    by blast
  have "(\<forall>mc\<in>set (MatchConditions ?B). \<not> ?reserved mc) \<and> (\<exists>v\<in>set (Variables ?B). ?invalid v)"
    by (simp add: test_inputs constants)
  with Validate_first_error [of ?B, THEN conjunct2, THEN conjunct1]
  have b: "\<exists>e. Validate ?B = Some e
       \<and> errors_Is e ErrBadVariable \<and> \<not> errors_Is e ErrBadFailurePolicy"
    by blast
  have "(\<forall>mc\<in>set (MatchConditions ?C). \<not> ?reserved mc)
      \<and> (\<forall>v\<in>set (Variables ?C). \<not> HasPrefix (var_Name v) ReservedPrefix \<and> var_Name v \<noteq> ParamsName)"
    by (simp add: test_inputs constants)
  with Validate_first_error [of ?C, THEN conjunct2, THEN conjunct2]
  have "Validate ?C = snd (GetFailurePolicy ?C)"
    by (rule mp)
  then have c: "Validate ?C
       = Some (Errorf ErrBadFailurePolicy '': unrecognized failure policy: Sometimes'')"
    by (simp add: GetFailurePolicy_def badFailurePolicy_def admissionv1_Fail_def
        admissionv1_Ignore_def)
  from a b c show ?thesis by (intro conjI)
qed

subsection \<open>Validations\<close>

text \<open>
  Claim C9. For every source the results of the validation accessors have the length and
  order of \<open>Validations\<close>. \<open>GetV1Alpha1Validatons\<close> copies expression, message and
  message expression of each validation (an empty message expression stays the empty
  string, which the field's JSON tag omits). \<open>GetValidations\<close> copies expression and
  message into a \<open>ValidationCondition\<close>, and \<open>GetMessageExpressions\<close> holds at the same
  index the message expression, or \<^verbatim>\<open>nil\<close> when it is empty. None of them returns an error.
\<close>

theorem validations_copied:
  "GetValidations src
     = (Some (map (\<lambda>v. Some (ValidationConditionPtr
           \<lparr>vc_Expression = v_Expression v, vc_Message = v_Message v, vc_Reason = None\<rparr>))
         (Validations src)), None)
   \<and> GetMessageExpressions src
     = (Some (map (\<lambda>v. if v_MessageExpression v = [] then None
                        else Some (MessageExpressionConditionPtr
                          \<lparr>mec_MessageExpression = v_MessageExpression v\<rparr>))
         (Validations src)), None)
   \<and> elems (fst (GetV1Alpha1Validatons src))
     = map (\<lambda>v. \<lparr>aval_Expression = v_Expression v, aval_Message = v_Message v,
                  aval_Reason = None, aval_MessageExpression = v_MessageExpression v\<rparr>)
         (Validations src)
   \<and> snd (GetV1Alpha1Validatons src) = None
   \<and> len (fst (GetValidations src)) = length (Validations src)
   \<and> len (fst (GetMessageExpressions src)) = length (Validations src)
   \<and> len (fst (GetV1Alpha1Validatons src)) = length (Validations src)"
proof -
  let ?n = "length (Validations src)"
  let ?f = "\<lambda>v. Some (ValidationConditionPtr
           \<lparr>vc_Expression = v_Expression v, vc_Message = v_Message v, vc_Reason = None\<rparr>)"
  let ?g = "\<lambda>v. if v_MessageExpression v = [] then None
                 else Some (MessageExpressionConditionPtr
                          \<lparr>mec_MessageExpression = v_MessageExpression v\<rparr>)"
  let ?h = "\<lambda>v. \<lparr>aval_Expression = v_Expression v, aval_Message = v_Message v,
                  aval_Reason = None, aval_MessageExpression = v_MessageExpression v\<rparr>"
  have v: "GetValidations src = (Some (map ?f (Validations src)), None)"
    by (simp add: GetValidations_def range_loop_fill)
  have m: "GetMessageExpressions src = (Some (map ?g (Validations src)), None)"
    by (simp add: GetMessageExpressions_def range_loop_fill_if)
  have a: "GetV1Alpha1Validatons src
      = (if Validations src = [] then None else Some (map ?h (Validations src)), None)"
    by (simp add: GetV1Alpha1Validatons_def range_loop_append_nil)
  show ?thesis
    by (simp add: v m a)
qed

theorem validations_copied_witness:
  "GetValidations (validSource\<lparr>Validations := [testValidation, testValidation\<lparr>v_MessageExpression := []\<rparr>]\<rparr>)
     = (Some [Some (ValidationConditionPtr
                \<lparr>vc_Expression = ''1 == 1'', vc_Message = ''some fallback message'', vc_Reason = None\<rparr>),
              Some (ValidationConditionPtr
                \<lparr>vc_Expression = ''1 == 1'', vc_Message = ''some fallback message'', vc_Reason = None\<rparr>)],
        None)
   \<and> GetMessageExpressions (validSource\<lparr>Validations := [testValidation, testValidation\<lparr>v_MessageExpression := []\<rparr>]\<rparr>)
     = (Some [Some (MessageExpressionConditionPtr
                \<lparr>mec_MessageExpression = quoted ''some CEL string''\<rparr>),
              None],
        None)
   \<and> GetV1Alpha1Validatons (validSource\<lparr>Validations := [testValidation, testValidation\<lparr>v_MessageExpression := []\<rparr>]\<rparr>)
     = (Some [\<lparr>aval_Expression = ''1 == 1'', aval_Message = ''some fallback message'',
               aval_Reason = None, aval_MessageExpression = quoted ''some CEL string''\<rparr>,
              \<lparr>aval_Expression = ''1 == 1'', aval_Message = ''some fallback message'',
               aval_Reason = None, aval_MessageExpression = []\<rparr>],
        None)"
proof -
  let ?s = "validSource\<lparr>Validations := [testValidation, testValidation\<lparr>v_MessageExpression := []\<rparr>]\<rparr>"
  have vs: "Validations ?s = [testValidation, testValidation\<lparr>v_MessageExpression := []\<rparr>]"
    by simp
  obtain xs where a: "GetV1Alpha1Validatons ?s = (Some xs, None)"
    by (simp add: GetV1Alpha1Validatons_def)
  from validations_copied [of ?s] show ?thesis
    unfolding vs a by (simp add: testValidation_def quoted_def)
qed

subsection \<open>Reading the source out of a template\<close>

lemma GetSource_error_nil:
  "GetSource conv code = Return (s, Some e) \<Longrightarrow> s = None"
  by (auto simp add: GetSource_def split: option.splits anyval.splits prod.splits)

lemma GetSource_not_map:
  "code_Source code = Some a \<Longrightarrow> \<forall>m. Value a \<noteq> AnyMap m \<Longrightarrow>
   GetSource conv code = Return (None, Some (Sentinel ErrBadType))"
  by (cases "Value a") (simp_all add: GetSource_def)

lemma GetSourceFromTemplate_loop_skip:
  "\<forall>c\<in>set pre. code_Engine c \<noteq> Name \<Longrightarrow>
   GetSourceFromTemplate_loop conv (pre @ rest) = GetSourceFromTemplate_loop conv rest"
  by (induction pre) simp_all

lemma GetSourceFromTemplate_loop_find:
  "GetSourceFromTemplate_loop conv codes =
     (case find (\<lambda>c. code_Engine c = Name) codes of
        None \<Rightarrow> Return (None, None)
      | Some code \<Rightarrow>
          (case GetSource conv code of
             Panic \<Rightarrow> Panic
           | Return (source, Some err) \<Rightarrow> Return (None, Some err)
           | Return (source, None) \<Rightarrow> Return (source, None)))"
  by (induction codes) simp_all

lemma GetSourceFromTemplate_error_nil:
  "GetSourceFromTemplate conv ct = Return (s, Some e) \<Longrightarrow> s = None"
  by (auto simp add: GetSourceFromTemplate_def split: if_splits outcome.splits option.splits prod.splits)

lemma decodeSource_testMap:
  "decodeSource (testMap mcName varName) zeroSource = (testSource mcName varName, None)"
  by (simp add: decodeSource_def testMap_def testSource_def testValidation_def zeroSource_def
      listField_def decodeFailurePolicy_def decodeValidation_def decodeMatchCondition_def
      decodeVariable_def stringField_def)

lemma Validate_testSource:
  "Validate (testSource mcName varName) =
     (if HasPrefix mcName ReservedPrefix then Some (badMatchCondition mcName)
      else if HasPrefix varName ReservedPrefix then Some (badVariablePrefix varName)
      else if varName = ParamsName then Some badVariableParams
      else None)"
  by (simp add: Validate_def validateMatchConditions_def validateVariables_def
      GetFailurePolicy_def testSource_def admissionv1_Fail_def)

lemma GetSource_testPayload:
  "GetSource decodeSource \<lparr>code_Engine = engine, code_Source = Some \<lparr>Value = testPayload mcName varName\<rparr>\<rparr>
     = (case Validate (testSource mcName varName) of
          Some err \<Rightarrow> Return (None, Some err)
        | None \<Rightarrow> Return (Some (testSource mcName varName), None))"
  by (simp add: GetSource_def testPayload_def decodeSource_testMap)

text \<open>
  Claim C8. \<open>GetSourceFromTemplate\<close> returns an error and a \<^verbatim>\<open>nil\<close> source when the
  template has not exactly one target. In the single target, code entries whose engine
  is not \<^verbatim>\<open>K8sNativeValidation\<close> are skipped: leading entries of another engine do not
  change the result, and when every entry is of another engine the result is an error.
  \<open>GetSource\<close> returns \<open>ErrBadType\<close> when the payload is not a map. Whenever either
  function returns an error, the source it returns is \<^verbatim>\<open>nil\<close>.
\<close>

theorem source_extraction_errors:
  "(length (ct_Targets ct) \<noteq> 1 \<longrightarrow>
      GetSourceFromTemplate conv ct
        = Return (None, Some (New ''wrong number of targets defined, only 1 target allowed'')))
   \<and> (\<forall>pre rest. (\<forall>c\<in>set pre. code_Engine c \<noteq> ''K8sNativeValidation'') \<longrightarrow>
        GetSourceFromTemplate conv (ct\<lparr>ct_Targets := [\<lparr>Code = pre @ rest\<rparr>]\<rparr>)
          = GetSourceFromTemplate conv (ct\<lparr>ct_Targets := [\<lparr>Code = rest\<rparr>]\<rparr>))
   \<and> (length (ct_Targets ct) = 1
        \<and> (\<forall>c\<in>set (Code (ct_Targets ct ! 0)). code_Engine c \<noteq> ''K8sNativeValidation'') \<longrightarrow>
      GetSourceFromTemplate conv ct
        = Return (None, Some (New ''K8sNativeValidation code not defined'')))
   \<and> (\<forall>a. code_Source code = Some a \<and> (\<forall>m. Value a \<noteq> AnyMap m) \<longrightarrow>
        GetSource conv code = Return (None, Some (Sentinel ErrBadType)))
   \<and> (\<forall>s e. GetSource conv code = Return (s, Some e) \<longrightarrow> s = None)
   \<and> (\<forall>s e. GetSourceFromTemplate conv ct = Return (s, Some e) \<longrightarrow> s = None)"
proof (intro conjI allI impI)
  assume "length (ct_Targets ct) \<noteq> 1"
  then show "GetSourceFromTemplate conv ct
      = Return (None, Some (New ''wrong number of targets defined, only 1 target allowed''))"
    by (simp add: GetSourceFromTemplate_def errWrongNumberOfTargets_def)
next
  fix pre rest :: "Code list"
  assume "\<forall>c\<in>set pre. code_Engine c \<noteq> ''K8sNativeValidation''"
  then have "GetSourceFromTemplate_loop conv (pre @ rest) = GetSourceFromTemplate_loop conv rest"
    by (intro GetSourceFromTemplate_loop_skip) (simp add: Name_def)
  then show "GetSourceFromTemplate conv (ct\<lparr>ct_Targets := [\<lparr>Code = pre @ rest\<rparr>]\<rparr>)
      = GetSourceFromTemplate conv (ct\<lparr>ct_Targets := [\<lparr>Code = rest\<rparr>]\<rparr>)"
    by (simp add: GetSourceFromTemplate_def)
next
  assume a: "length (ct_Targets ct) = 1
        \<and> (\<forall>c\<in>set (Code (ct_Targets ct ! 0)). code_Engine c \<noteq> ''K8sNativeValidation'')"
  then have "GetSourceFromTemplate_loop conv (Code (ct_Targets ct ! 0) @ [])
      = GetSourceFromTemplate_loop conv []"
    by (intro GetSourceFromTemplate_loop_skip) (simp add: Name_def)
  with a show "GetSourceFromTemplate conv ct
      = Return (None, Some (New ''K8sNativeValidation code not defined''))"
    by (simp add: GetSourceFromTemplate_def errCodeNotDefined_def)
next
  fix a
  assume "code_Source code = Some a \<and> (\<forall>m. Value a \<noteq> AnyMap m)"
  then show "GetSource conv code = Return (None, Some (Sentinel ErrBadType))"
    by (simp add: GetSource_not_map)
next
  fix s e
  assume "GetSource conv code = Return (s, Some e)"
  then show "s = None" by (rule GetSource_error_nil)
next
  fix s e
  assume "GetSourceFromTemplate conv ct = Return (s, Some e)"
  then show "s = None" by (rule GetSourceFromTemplate_error_nil)
qed

theorem source_extraction_errors_witness:
  "GetSourceFromTemplate decodeSource
      ((testTemplate ''somepolicy'' ''SomePolicy'' (testPayload ''must_match_something'' ''my_variable''))
         \<lparr>ct_Targets := []\<rparr>)
     = Return (None, Some (New ''wrong number of targets defined, only 1 target allowed''))
   \<and> GetSourceFromTemplate decodeSource
      ((testTemplate ''somepolicy'' ''SomePolicy'' AnyNil)
         \<lparr>ct_Targets := [\<lparr>Code =
            [\<lparr>code_Engine = ''Rego'', code_Source = None\<rparr>,
             \<lparr>code_Engine = Name,
              code_Source = Some \<lparr>Value = testPayload ''must_match_something'' ''my_variable''\<rparr>\<rparr>]\<rparr>]\<rparr>)
     = Return (Some validSource, None)
   \<and> GetSourceFromTemplate decodeSource
      ((testTemplate ''somepolicy'' ''SomePolicy'' AnyNil)
         \<lparr>ct_Targets := [\<lparr>Code = [\<lparr>code_Engine = ''Rego'', code_Source = None\<rparr>]\<rparr>]\<rparr>)
     = Return (None, Some (New ''K8sNativeValidation code not defined''))
   \<and> GetSource decodeSource
      \<lparr>code_Engine = Name, code_Source = Some \<lparr>Value = AnyString ''violation[{}] { true }''\<rparr>\<rparr>
     = Return (None, Some (Sentinel ErrBadType))
   \<and> GetSource decodeSource
      \<lparr>code_Engine = Name,
       code_Source = Some \<lparr>Value = testPayload ''gatekeeper_internal_match_something'' ''my_variable''\<rparr>\<rparr>
     = Return (None, Some (badMatchCondition ''gatekeeper_internal_match_something''))
   \<and> GetSourceFromTemplate decodeSource
      (testTemplate ''somepolicy'' ''SomePolicy''
         (testPayload ''gatekeeper_internal_match_something'' ''my_variable''))
     = Return (None, Some (badMatchCondition ''gatekeeper_internal_match_something''))"
proof -
  let ?ok = "\<lparr>code_Engine = Name,
      code_Source = Some \<lparr>Value = testPayload ''must_match_something'' ''my_variable''\<rparr>\<rparr>"
  let ?rego = "\<lparr>code_Engine = ''Rego'', code_Source = None\<rparr>"
  let ?text = "\<lparr>code_Engine = Name, code_Source = Some \<lparr>Value = AnyString ''violation[{}] { true }''\<rparr>\<rparr>"
  let ?bad = "\<lparr>code_Engine = Name,
      code_Source = Some \<lparr>Value = testPayload ''gatekeeper_internal_match_something'' ''my_variable''\<rparr>\<rparr>"
  let ?t = "testTemplate ''somepolicy'' ''SomePolicy'' AnyNil"
  let ?badt = "testTemplate ''somepolicy'' ''SomePolicy''
         (testPayload ''gatekeeper_internal_match_something'' ''my_variable'')"
  note inst = source_extraction_errors [of _ decodeSource]
  have c1: "GetSourceFromTemplate decodeSource
      ((testTemplate ''somepolicy'' ''SomePolicy'' (testPayload ''must_match_something'' ''my_variable''))
         \<lparr>ct_Targets := []\<rparr>)
     = Return (None, Some (New ''wrong number of targets defined, only 1 target allowed''))"
    by (rule inst [THEN conjunct1, THEN mp]) simp
  have ok: "GetSourceFromTemplate decodeSource (?t\<lparr>ct_Targets := [\<lparr>Code = [?ok]\<rparr>]\<rparr>)
      = Return (Some validSource, None)"
    by (simp add: GetSourceFromTemplate_def GetSource_testPayload Validate_testSource
        validSource_def constants)
  have "\<forall>c\<in>set [?rego]. code_Engine c \<noteq> ''K8sNativeValidation''"
    by simp
  with inst [of ?t, THEN conjunct2, THEN conjunct1, rule_format, of "[?rego]" "[?ok]"]
  have "GetSourceFromTemplate decodeSource (?t\<lparr>ct_Targets := [\<lparr>Code = [?rego] @ [?ok]\<rparr>]\<rparr>)
      = GetSourceFromTemplate decodeSource (?t\<lparr>ct_Targets := [\<lparr>Code = [?ok]\<rparr>]\<rparr>)"
    by simp
  with ok have c2: "GetSourceFromTemplate decodeSource (?t\<lparr>ct_Targets := [\<lparr>Code = [?rego, ?ok]\<rparr>]\<rparr>)
      = Return (Some validSource, None)"
    by simp
  have c3: "GetSourceFromTemplate decodeSource (?t\<lparr>ct_Targets := [\<lparr>Code = [?rego]\<rparr>]\<rparr>)
      = Return (None, Some (New ''K8sNativeValidation code not defined''))"
    by (rule inst [THEN conjunct2, THEN conjunct2, THEN conjunct1, THEN mp]) simp
  have c4: "GetSource decodeSource ?text = Return (None, Some (Sentinel ErrBadType))"
    by (rule inst [THEN conjunct2, THEN conjunct2, THEN conjunct2, THEN conjunct1, rule_format,
          of ?text "\<lparr>Value = AnyString ''violation[{}] { true }''\<rparr>"]) simp
  obtain s where bad: "GetSource decodeSource ?bad
      = Return (s, Some (badMatchCondition ''gatekeeper_internal_match_something''))"
    by (simp add: GetSource_testPayload Validate_testSource constants)
  with inst [of _ ?bad, THEN conjunct2, THEN conjunct2, THEN conjunct2, THEN conjunct2,
      THEN conjunct1, rule_format, OF bad]
  have c5: "GetSource decodeSource ?bad
      = Return (None, Some (badMatchCondition ''gatekeeper_internal_match_something''))"
    by simp
  obtain s' where badt: "GetSourceFromTemplate decodeSource ?badt
      = Return (s', Some (badMatchCondition ''gatekeeper_internal_match_something''))"
    by (simp add: GetSourceFromTemplate_def testTemplate_def c5)
  with inst [of ?badt, THEN conjunct2, THEN conjunct2, THEN conjunct2, THEN conjunct2,
      THEN conjunct2, rule_format, OF badt]
  have c6: "GetSourceFromTemplate decodeSource ?badt
      = Return (None, Some (badMatchCondition ''gatekeeper_internal_match_something''))"
    by simp
  from c1 c2 c3 c4 c5 c6 show ?thesis
    by (intro conjI)
qed

section \<open>Properties of the two compilers\<close>

lemma ToLower_SomePolicy: "ToLower unicodeLower ''SomePolicy'' = ''somepolicy''"
  by code_simp

lemma ToLower_FooTemplate: "ToLower unicodeLower ''FooTemplate'' = ''footemplate''"
  by code_simp

lemma GetSourceFromTemplate_single:
  assumes "ct_Targets template = [target]"
    and "find (\<lambda>c. code_Engine c = Name) (Code target) = Some code"
    and "code_Source code = Some rawCode"
    and "Value rawCode = AnyMap m"
    and "conv m zeroSource = (src, None)"
  shows "GetSourceFromTemplate conv template =
     (case Validate src of
        Some err \<Rightarrow> Return (None, Some err)
      | None \<Rightarrow> Return (Some src, None))"
proof -
  have "GetSource conv code =
     (case Validate src of
        Some err \<Rightarrow> Return (None, Some err)
      | None \<Rightarrow> Return (Some src, None))"
    using assms(3-5) by (simp add: GetSource_def)
  then have "GetSourceFromTemplate_loop conv (Code target) =
     (case Validate src of
        Some err \<Rightarrow> Return (None, Some err)
      | None \<Rightarrow> Return (Some src, None))"
    using assms(2) by (simp add: GetSourceFromTemplate_loop_find split: option.split)
  then show ?thesis
    using assms(1) by (simp add: GetSourceFromTemplate_def split: option.split)
qed

lemma compile_valid_source:
  assumes "GetSourceFromTemplate conv template = Return (Some src, None)"
    and "validateMatchConditions src = None"
    and "validateVariables src = None"
    and "GetV1alpha1FailurePolicy src = (fp, None)"
  shows "TemplateToPolicyDefinition snippets unicodeLower conv template =
     Return
       (Some
          \<lparr>vap_Name = namePrefix @ ToLower unicodeLower (ct_Kind template),
           vap_Spec =
             \<lparr>vap_ParamKind = Some
                \<lparr>pk_APIVersion = constraintsAPIVersion, pk_Kind = ct_Kind template\<rparr>,
              vap_MatchConstraints = Some matchEverything,
              vap_MatchConditions = append_slice
                (fst (GetV1Alpha1MatchConditions src)) (AllMatchers snippets),
              vap_Validations = fst (GetV1Alpha1Validatons src),
              vap_FailurePolicy = fp,
              vap_Variables = append_slice (fst (GetV1Alpha1Variables src)) AllVariables\<rparr>\<rparr>,
        None)"
  using assms
  by (simp add: TemplateToPolicyDefinition_def GetV1Alpha1MatchConditions_def
      GetV1Alpha1Validatons_def GetV1Alpha1Variables_def)

text \<open>
  Claim C1, as amended (the compiler is modelled from the spec). For every template of
  kind \<^verbatim>\<open>"SomePolicy"\<close> with one target whose \<^verbatim>\<open>K8sNativeValidation\<close> entry decodes to a
  source with exactly one match condition, one variable, one validation and the failure
  policy \<^verbatim>\<open>"Fail"\<close>, where the name of the match condition does not start with the reserved
  prefix and the name of the variable neither starts with it nor is \<^verbatim>\<open>params\<close>:
  \<open>TemplateToPolicyDefinition\<close> returns, without error, the definition named
  \<^verbatim>\<open>gatekeeper-somepolicy\<close> whose match conditions are the user's followed by the four
  reserved-prefixed ones (excluded namespaces, namespaces, name, kinds), and whose
  variables are the user's followed by the one named \<^verbatim>\<open>params\<close> with the three-level
  conditional on \<^verbatim>\<open>params.spec.parameters\<close>.
\<close>

theorem TemplateToPolicyDefinition_SomePolicy:
  assumes "ct_Kind template = ''SomePolicy''"
    and "ct_Targets template = [target]"
    and "find (\<lambda>c. code_Engine c = ''K8sNativeValidation'') (Code target) = Some code"
    and "code_Source code = Some \<lparr>Value = AnyMap m\<rparr>"
    and "FromUnstructured m zeroSource = (src, None)"
    and "MatchConditions src = [mc]"
    and "Variables src = [v]"
    and "Validations src = [val]"
    and "FailurePolicy src = Some ''Fail''"
    and "\<not> HasPrefix (mc_Name mc) ReservedPrefix"
    and "\<not> HasPrefix (var_Name v) ReservedPrefix"
    and "var_Name v \<noteq> ParamsName"
  shows "TemplateToPolicyDefinition snippets unicodeLower FromUnstructured template =
     Return
       (Some
          \<lparr>vap_Name = ''gatekeeper-somepolicy'',
           vap_Spec =
             \<lparr>vap_ParamKind = Some
                \<lparr>pk_APIVersion = ''constraints.gatekeeper.sh/v1beta1'', pk_Kind = ''SomePolicy''\<rparr>,
              vap_MatchConstraints = Some
                \<lparr>mr_NamespaceSelector = None,
                 mr_ObjectSelector = None,
                 mr_ResourceRules = Some
                   [\<lparr>rule_Operations = Some [''*''], rule_APIGroups = Some [''*''],
                     rule_APIVersions = Some [''*''], rule_Resources = Some [''*'']\<rparr>]\<rparr>,
              vap_MatchConditions = Some
                [\<lparr>amc_Name = mc_Name mc, amc_Expression = mc_Expression mc\<rparr>,
                 \<lparr>amc_Name = ''gatekeeper_internal_match_excluded_namespaces'',
                  amc_Expression = matchExcludedNamespacesGlob snippets\<rparr>,
                 \<lparr>amc_Name = ''gatekeeper_internal_match_namespaces'',
                  amc_Expression = matchNamespacesGlob snippets\<rparr>,
                 \<lparr>amc_Name = ''gatekeeper_internal_match_name'',
                  amc_Expression = matchNameGlob snippets\<rparr>,
                 \<lparr>amc_Name = ''gatekeeper_internal_match_kinds'',
                  amc_Expression = matchKinds snippets\<rparr>],
              vap_Validations = Some
                [\<lparr>aval_Expression = v_Expression val, aval_Message = v_Message val,
                  aval_Reason = None, aval_MessageExpression = v_MessageExpression val\<rparr>],
              vap_FailurePolicy = Some admissionv1alpha1_Fail,
              vap_Variables = Some
                [\<lparr>avar_Name = var_Name v, avar_Expression = var_Expression v\<rparr>,
                 \<lparr>avar_Name = ''params'',
                  avar_Expression =
                    ''!has(params.spec) ? null : !has(params.spec.parameters) ? null: params.spec.parameters''\<rparr>]\<rparr>\<rparr>,
        None)"
proof -
  have mcs: "validateMatchConditions src = None"
    using assms(6,10) by (simp add: validateMatchConditions_def)
  have vars: "validateVariables src = None"
    using assms(7,11,12) by (simp add: validateVariables_def)
  have fp: "GetV1alpha1FailurePolicy src = (Some admissionv1alpha1_Fail, None)"
    using assms(9) by (simp add: GetV1alpha1FailurePolicy_def admissionv1_Fail_def)
  have "snd (GetFailurePolicy src) = None"
    using assms(9) by (simp add: GetFailurePolicy_def admissionv1_Fail_def)
  then have valid: "Validate src = None"
    by (simp add: Validate_def mcs vars)
  have "GetSourceFromTemplate FromUnstructured template = Return (Some src, None)"
    using GetSourceFromTemplate_single [of template target code "\<lparr>Value = AnyMap m\<rparr>" m FromUnstructured src]
      assms(2-5)
    by (simp add: valid Name_def)
  then have compiled: "TemplateToPolicyDefinition snippets unicodeLower FromUnstructured template =
     Return
       (Some
          \<lparr>vap_Name = namePrefix @ ToLower unicodeLower (ct_Kind template),
           vap_Spec =
             \<lparr>vap_ParamKind = Some
                \<lparr>pk_APIVersion = constraintsAPIVersion, pk_Kind = ct_Kind template\<rparr>,
              vap_MatchConstraints = Some matchEverything,
              vap_MatchConditions = append_slice
                (fst (GetV1Alpha1MatchConditions src)) (AllMatchers snippets),
              vap_Validations = fst (GetV1Alpha1Validatons src),
              vap_FailurePolicy = Some admissionv1alpha1_Fail,
              vap_Variables = append_slice (fst (GetV1Alpha1Variables src)) AllVariables\<rparr>\<rparr>,
        None)"
    using mcs vars fp by (rule compile_valid_source)
  have name: "namePrefix @ ToLower unicodeLower (ct_Kind template) = ''gatekeeper-somepolicy''"
    by (simp add: assms(1) ToLower_SomePolicy namePrefix_def)
  have conds: "fst (GetV1Alpha1MatchConditions src)
      = Some [\<lparr>amc_Name = mc_Name mc, amc_Expression = mc_Expression mc\<rparr>]"
    by (simp add: GetV1Alpha1MatchConditions_def mcs assms(6))
  have variables: "fst (GetV1Alpha1Variables src)
      = Some [\<lparr>avar_Name = var_Name v, avar_Expression = var_Expression v\<rparr>]"
    by (simp add: GetV1Alpha1Variables_def vars assms(7))
  have validations: "fst (GetV1Alpha1Validatons src)
      = Some [\<lparr>aval_Expression = v_Expression val, aval_Message = v_Message val,
               aval_Reason = None, aval_MessageExpression = v_MessageExpression val\<rparr>]"
    by (simp add: GetV1Alpha1Validatons_def assms(8))
  show ?thesis
    unfolding compiled name conds variables validations
    by (simp add: assms(1) AllMatchers_def AllVariables_def matchEverything_def
        constraintsAPIVersion_def paramsExpression_def OperationAll_def
        ReservedPrefix_def ParamsName_def)
qed

theorem TemplateToPolicyDefinition_SomePolicy_witness:
  "TemplateToPolicyDefinition testSnippets (\<lambda>s. s) decodeSource
      (testTemplate ''somepolicy'' ''SomePolicy'' (testPayload ''must_match_something'' ''my_variable''))
     = Return
       (Some
          \<lparr>vap_Name = ''gatekeeper-somepolicy'',
           vap_Spec =
             \<lparr>vap_ParamKind = Some
                \<lparr>pk_APIVersion = ''constraints.gatekeeper.sh/v1beta1'', pk_Kind = ''SomePolicy''\<rparr>,
              vap_MatchConstraints = Some
                \<lparr>mr_NamespaceSelector = None,
                 mr_ObjectSelector = None,
                 mr_ResourceRules = Some
                   [\<lparr>rule_Operations = Some [''*''], rule_APIGroups = Some [''*''],
                     rule_APIVersions = Some [''*''], rule_Resources = Some [''*'']\<rparr>]\<rparr>,
              vap_MatchConditions = Some
                [\<lparr>amc_Name = ''must_match_something'', amc_Expression = ''true == true''\<rparr>,
                 \<lparr>amc_Name = ''gatekeeper_internal_match_excluded_namespaces'',
                  amc_Expression = matchExcludedNamespacesGlob testSnippets\<rparr>,
                 \<lparr>amc_Name = ''gatekeeper_internal_match_namespaces'',
                  amc_Expression = matchNamespacesGlob testSnippets\<rparr>,
                 \<lparr>amc_Name = ''gatekeeper_internal_match_name'',
                  amc_Expression = matchNameGlob testSnippets\<rparr>,
                 \<lparr>amc_Name = ''gatekeeper_internal_match_kinds'',
                  amc_Expression = matchKinds testSnippets\<rparr>],
              vap_Validations = Some
                [\<lparr>aval_Expression = ''1 == 1'', aval_Message = ''some fallback message'',
                  aval_Reason = None, aval_MessageExpression = quoted ''some CEL string''\<rparr>],
              vap_FailurePolicy = Some admissionv1alpha1_Fail,
              vap_Variables = Some
                [\<lparr>avar_Name = ''my_variable'', avar_Expression = ''true''\<rparr>,
                 \<lparr>avar_Name = ''params'',
                  avar_Expression =
                    ''!has(params.spec) ? null : !has(params.spec.parameters) ? null: params.spec.parameters''\<rparr>]\<rparr>\<rparr>,
        None)"
proof -
  let ?code = "\<lparr>code_Engine = Name,
      code_Source = Some \<lparr>Value = testPayload ''must_match_something'' ''my_variable''\<rparr>\<rparr>"
  let ?t = "testTemplate ''somepolicy'' ''SomePolicy'' (testPayload ''must_match_something'' ''my_variable'')"
  let ?mc = "\<lparr>mc_Name = ''must_match_something'', mc_Expression = ''true == true''\<rparr>"
  let ?v = "\<lparr>var_Name = ''my_variable'', var_Expression = ''true''\<rparr>"
  have kind: "ct_Kind ?t = ''SomePolicy''"
    and targets: "ct_Targets ?t = [\<lparr>Code = [?code]\<rparr>]"
    by (simp_all add: testTemplate_def)
  have entry: "find (\<lambda>c. code_Engine c = ''K8sNativeValidation'') (Code \<lparr>Code = [?code]\<rparr>) = Some ?code"
    by (simp add: Name_def)
  have payload: "code_Source ?code = Some \<lparr>Value = AnyMap (testMap ''must_match_something'' ''my_variable'')\<rparr>"
    by (simp add: testPayload_def)
  have decoded: "decodeSource (testMap ''must_match_something'' ''my_variable'') zeroSource
      = (validSource, None)"
    by (simp add: decodeSource_testMap validSource_def)
  have shape: "MatchConditions validSource = [?mc]" "Variables validSource = [?v]"
    "Validations validSource = [testValidation]" "FailurePolicy validSource = Some ''Fail''"
    by (simp_all add: validSource_def testSource_def)
  have names: "\<not> HasPrefix (mc_Name ?mc) ReservedPrefix" "\<not> HasPrefix (var_Name ?v) ReservedPrefix"
    "var_Name ?v \<noteq> ParamsName"
    by (simp_all add: constants)
  show ?thesis
    using TemplateToPolicyDefinition_SomePolicy
      [where FromUnstructured = decodeSource and snippets = testSnippets and unicodeLower = "\<lambda>s. s",
        OF kind targets entry payload decoded shape names]
    by (simp add: testValidation_def)
qed

text \<open>
  The claim as first stated asks nothing of the names. The template of the test case
  \<^verbatim>\<open>Invalid Match Condition\<close> has the kind \<^verbatim>\<open>"SomePolicy"\<close> and a source with one match
  condition, one variable, one validation and the failure policy \<^verbatim>\<open>"Fail"\<close>, and is
  compiled to no definition and the match-condition error.
\<close>

theorem TemplateToPolicyDefinition_counterexample:
  "ct_Kind (testTemplate ''somepolicy'' ''SomePolicy''
        (testPayload ''gatekeeper_internal_match_something'' ''my_variable'')) = ''SomePolicy''
   \<and> decodeSource (testMap ''gatekeeper_internal_match_something'' ''my_variable'') zeroSource
       = (invalidMatchConditionSource, None)
   \<and> length (MatchConditions invalidMatchConditionSource) = 1
   \<and> length (Variables invalidMatchConditionSource) = 1
   \<and> length (Validations invalidMatchConditionSource) = 1
   \<and> FailurePolicy invalidMatchConditionSource = Some ''Fail''
   \<and> TemplateToPolicyDefinition testSnippets (\<lambda>s. s) decodeSource
        (testTemplate ''somepolicy'' ''SomePolicy''
          (testPayload ''gatekeeper_internal_match_something'' ''my_variable''))
       = Return (None, Some (Errorf ErrBadMatchCondition
           ('': gatekeeper_internal_match_something is not a valid match condition; cannot have ''
              @ quoted ''gatekeeper_internal_'' @ '' as a prefix'')))"
proof -
  let ?t = "testTemplate ''somepolicy'' ''SomePolicy''
        (testPayload ''gatekeeper_internal_match_something'' ''my_variable'')"
  have "GetSourceFromTemplate decodeSource ?t
      = Return (None, Some (badMatchCondition ''gatekeeper_internal_match_something''))"
    by (simp add: GetSourceFromTemplate_def testTemplate_def GetSource_testPayload
        Validate_testSource constants)
  then have "TemplateToPolicyDefinition testSnippets (\<lambda>s. s) decodeSource ?t
      = Return (None, Some (badMatchCondition ''gatekeeper_internal_match_something''))"
    by (simp add: TemplateToPolicyDefinition_def)
  moreover have "ct_Kind ?t = ''SomePolicy''"
    by (simp add: testTemplate_def)
  moreover have "decodeSource (testMap ''gatekeeper_internal_match_something'' ''my_variable'') zeroSource
       = (invalidMatchConditionSource, None)"
    by (simp add: decodeSource_testMap invalidMatchConditionSource_def)
  ultimately show ?thesis
    by (simp add: invalidMatchConditionSource_def testSource_def badMatchCondition_def
        ReservedPrefix_def)
qed

subsection \<open>The policy binding\<close>

lemma ConstraintToBinding_action:
  "enforcementAction (c_EnforcementAction constraint) = Inr action \<Longrightarrow>
   ConstraintToBinding unicodeLower constraint =
     (Some
        \<lparr>vapb_Name = namePrefix @ c_Name constraint,
         vapb_Spec =
           \<lparr>vapb_PolicyName = namePrefix @ ToLower unicodeLower (c_Kind constraint),
            vapb_ParamRef = Some
              \<lparr>pr_Name = c_Name constraint, pr_ParameterNotFoundAction = Some AllowAction\<rparr>,
            vapb_MatchResources = Some
              \<lparr>mr_NamespaceSelector = c_NamespaceSelector constraint,
               mr_ObjectSelector = c_LabelSelector constraint,
               mr_ResourceRules = None\<rparr>,
            vapb_ValidationActions = Some [action]\<rparr>\<rparr>,
      None)"
  by (simp add: ConstraintToBinding_def)

lemma ConstraintToBinding_Some:
  assumes "ConstraintToBinding unicodeLower constraint = (Some binding, err)"
  shows "vapb_Name binding = namePrefix @ c_Name constraint"
    and "vapb_PolicyName (vapb_Spec binding) = namePrefix @ ToLower unicodeLower (c_Kind constraint)"
    and "vapb_MatchResources (vapb_Spec binding) = Some
          \<lparr>mr_NamespaceSelector = c_NamespaceSelector constraint,
           mr_ObjectSelector = c_LabelSelector constraint,
           mr_ResourceRules = None\<rparr>"
  using assms by (auto simp add: ConstraintToBinding_def split: sum.splits)

lemma TemplateToPolicyDefinition_name:
  "TemplateToPolicyDefinition snippets unicodeLower conv template = Return (Some policy, err) \<Longrightarrow>
   vap_Name policy = namePrefix @ ToLower unicodeLower (ct_Kind template)"
  by (auto simp add: TemplateToPolicyDefinition_def
      split: outcome.splits prod.splits option.splits)

text \<open>
  Claim C2 (the compiler is modelled from the spec). \<open>ConstraintToBinding\<close> maps an
  absent enforcement action and \<^verbatim>\<open>"deny"\<close> to the action list \<open>[Deny]\<close>, \<^verbatim>\<open>"warn"\<close> to \<open>[Warn]\<close>,
  and fails on every other string with a \<^verbatim>\<open>nil\<close> binding and an error that wraps
  \<open>ErrBadEnforcementAction\<close> and names the string.
\<close>

theorem enforcement_action_mapping:
  "(c_EnforcementAction constraint = None \<or> c_EnforcementAction constraint = Some ''deny'' \<longrightarrow>
      (\<exists>binding. ConstraintToBinding unicodeLower constraint = (Some binding, None)
         \<and> vapb_ValidationActions (vapb_Spec binding) = Some [Deny]))
   \<and> (c_EnforcementAction constraint = Some ''warn'' \<longrightarrow>
      (\<exists>binding. ConstraintToBinding unicodeLower constraint = (Some binding, None)
         \<and> vapb_ValidationActions (vapb_Spec binding) = Some [Warn]))
   \<and> (\<forall>a. c_EnforcementAction constraint = Some a \<and> a \<noteq> ''deny'' \<and> a \<noteq> ''warn'' \<longrightarrow>
      ConstraintToBinding unicodeLower constraint
        = (None, Some (Errorf ErrBadEnforcementAction ('': '' @ a)))
      \<and> errors_Is (Errorf ErrBadEnforcementAction ('': '' @ a)) ErrBadEnforcementAction)"
proof (intro conjI allI impI)
  assume "c_EnforcementAction constraint = None \<or> c_EnforcementAction constraint = Some ''deny''"
  then have "enforcementAction (c_EnforcementAction constraint) = Inr Deny"
    by (auto simp add: enforcementAction_def)
  then show "\<exists>binding. ConstraintToBinding unicodeLower constraint = (Some binding, None)
         \<and> vapb_ValidationActions (vapb_Spec binding) = Some [Deny]"
    by (simp add: ConstraintToBinding_action)
next
  assume "c_EnforcementAction constraint = Some ''warn''"
  then have "enforcementAction (c_EnforcementAction constraint) = Inr Warn"
    by (simp add: enforcementAction_def)
  then show "\<exists>binding. ConstraintToBinding unicodeLower constraint = (Some binding, None)
         \<and> vapb_ValidationActions (vapb_Spec binding) = Some [Warn]"
    by (simp add: ConstraintToBinding_action)
next
  fix a
  assume "c_EnforcementAction constraint = Some a \<and> a \<noteq> ''deny'' \<and> a \<noteq> ''warn''"
  then have "enforcementAction (c_EnforcementAction constraint)
      = Inl (Errorf ErrBadEnforcementAction ('': '' @ a))"
    by (simp add: enforcementAction_def)
  then show "ConstraintToBinding unicodeLower constraint
      = (None, Some (Errorf ErrBadEnforcementAction ('': '' @ a)))"
    by (simp add: ConstraintToBinding_def)
next
  fix a
  show "errors_Is (Errorf ErrBadEnforcementAction ('': '' @ a)) ErrBadEnforcementAction"
    by simp
qed

theorem enforcement_action_mapping_witness:
  "(\<exists>binding. ConstraintToBinding (\<lambda>s. s) (newTestConstraint [] None None) = (Some binding, None)
      \<and> vapb_ValidationActions (vapb_Spec binding) = Some [Deny])
   \<and> (\<exists>binding. ConstraintToBinding (\<lambda>s. s) (newTestConstraint ''deny'' None None) = (Some binding, None)
      \<and> vapb_ValidationActions (vapb_Spec binding) = Some [Deny])
   \<and> (\<exists>binding. ConstraintToBinding (\<lambda>s. s) (newTestConstraint ''warn'' None None) = (Some binding, None)
      \<and> vapb_ValidationActions (vapb_Spec binding) = Some [Warn])
   \<and> ConstraintToBinding (\<lambda>s. s) (newTestConstraint ''magicunicorns'' None None)
      = (None, Some (Errorf ErrBadEnforcementAction '': magicunicorns''))"
proof (intro conjI)
  have "c_EnforcementAction (newTestConstraint [] None None) = None"
    by (simp add: newTestConstraint_def)
  then show "\<exists>binding. ConstraintToBinding (\<lambda>s. s) (newTestConstraint [] None None) = (Some binding, None)
      \<and> vapb_ValidationActions (vapb_Spec binding) = Some [Deny]"
    using enforcement_action_mapping [THEN conjunct1, THEN mp] by blast
next
  have "c_EnforcementAction (newTestConstraint ''deny'' None None) = Some ''deny''"
    by (simp add: newTestConstraint_def)
  then show "\<exists>binding. ConstraintToBinding (\<lambda>s. s) (newTestConstraint ''deny'' None None) = (Some binding, None)
      \<and> vapb_ValidationActions (vapb_Spec binding) = Some [Deny]"
    using enforcement_action_mapping [THEN conjunct1, THEN mp] by blast
next
  have "c_EnforcementAction (newTestConstraint ''warn'' None None) = Some ''warn''"
    by (simp add: newTestConstraint_def)
  then show "\<exists>binding. ConstraintToBinding (\<lambda>s. s) (newTestConstraint ''warn'' None None) = (Some binding, None)
      \<and> vapb_ValidationActions (vapb_Spec binding) = Some [Warn]"
    by (rule enforcement_action_mapping [THEN conjunct2, THEN conjunct1, THEN mp])
next
  have "c_EnforcementAction (newTestConstraint ''magicunicorns'' None None) = Some ''magicunicorns''
      \<and> ''magicunicorns'' \<noteq> ''deny'' \<and> ''magicunicorns'' \<noteq> ''warn''"
    by (simp add: newTestConstraint_def)
  then have "ConstraintToBinding (\<lambda>s. s) (newTestConstraint ''magicunicorns'' None None)
        = (None, Some (Errorf ErrBadEnforcementAction ('': '' @ ''magicunicorns'')))
      \<and> errors_Is (Errorf ErrBadEnforcementAction ('': '' @ ''magicunicorns'')) ErrBadEnforcementAction"
    by (rule enforcement_action_mapping [THEN conjunct2, THEN conjunct2, THEN spec, THEN mp])
  then have "ConstraintToBinding (\<lambda>s. s) (newTestConstraint ''magicunicorns'' None None)
      = (None, Some (Errorf ErrBadEnforcementAction ('': '' @ ''magicunicorns'')))"
    by (rule conjunct1)
  then show "ConstraintToBinding (\<lambda>s. s) (newTestConstraint ''magicunicorns'' None None)
      = (None, Some (Errorf ErrBadEnforcementAction '': magicunicorns''))"
    by simp
qed

lemma enforcementAction_Inr:
  "a = None \<or> a = Some ''deny'' \<or> a = Some ''warn'' \<Longrightarrow> \<exists>action. enforcementAction a = Inr action"
  by (auto simp add: enforcementAction_def)

text \<open>
  Claim C4 (the compiler is modelled from the spec). For an instance with no namespace
  selector, no label selector and no enforcement action, \<open>ConstraintToBinding\<close> returns
  the binding named \<^verbatim>\<open>gatekeeper-\<close> and the instance's name, whose parameter reference has
  the instance's name and the not-found action \<open>AllowAction\<close>, whose match resources are
  present and the zero value, and whose actions are \<open>[Deny]\<close>. For every instance with
  a valid enforcement action the two selectors are copied into the match resources as
  they are.
\<close>

theorem binding_of_constraint:
  "(c_NamespaceSelector constraint = None \<and> c_LabelSelector constraint = None
      \<and> c_EnforcementAction constraint = None \<longrightarrow>
      ConstraintToBinding unicodeLower constraint
        = (Some
             \<lparr>vapb_Name = ''gatekeeper-'' @ c_Name constraint,
              vapb_Spec =
                \<lparr>vapb_PolicyName = ''gatekeeper-'' @ ToLower unicodeLower (c_Kind constraint),
                 vapb_ParamRef = Some
                   \<lparr>pr_Name = c_Name constraint, pr_ParameterNotFoundAction = Some AllowAction\<rparr>,
                 vapb_MatchResources = Some
                   \<lparr>mr_NamespaceSelector = None, mr_ObjectSelector = None, mr_ResourceRules = None\<rparr>,
                 vapb_ValidationActions = Some [Deny]\<rparr>\<rparr>,
           None))
   \<and> (c_EnforcementAction constraint = None \<or> c_EnforcementAction constraint = Some ''deny''
        \<or> c_EnforcementAction constraint = Some ''warn'' \<longrightarrow>
      (\<exists>binding. ConstraintToBinding unicodeLower constraint = (Some binding, None)
         \<and> vapb_MatchResources (vapb_Spec binding) = Some
              \<lparr>mr_NamespaceSelector = c_NamespaceSelector constraint,
               mr_ObjectSelector = c_LabelSelector constraint,
               mr_ResourceRules = None\<rparr>))"
proof (intro conjI impI)
  assume a: "c_NamespaceSelector constraint = None \<and> c_LabelSelector constraint = None
      \<and> c_EnforcementAction constraint = None"
  then have "enforcementAction (c_EnforcementAction constraint) = Inr Deny"
    by (simp add: enforcementAction_def)
  from ConstraintToBinding_action [OF this, of unicodeLower] a
  show "ConstraintToBinding unicodeLower constraint
        = (Some
             \<lparr>vapb_Name = ''gatekeeper-'' @ c_Name constraint,
              vapb_Spec =
                \<lparr>vapb_PolicyName = ''gatekeeper-'' @ ToLower unicodeLower (c_Kind constraint),
                 vapb_ParamRef = Some
                   \<lparr>pr_Name = c_Name constraint, pr_ParameterNotFoundAction = Some AllowAction\<rparr>,
                 vapb_MatchResources = Some
                   \<lparr>mr_NamespaceSelector = None, mr_ObjectSelector = None, mr_ResourceRules = None\<rparr>,
                 vapb_ValidationActions = Some [Deny]\<rparr>\<rparr>,
           None)"
    by (simp add: namePrefix_def)
next
  assume "c_EnforcementAction constraint = None \<or> c_EnforcementAction constraint = Some ''deny''
        \<or> c_EnforcementAction constraint = Some ''warn''"
  then obtain action where "enforcementAction (c_EnforcementAction constraint) = Inr action"
    using enforcementAction_Inr by blast
  from ConstraintToBinding_action [OF this, of unicodeLower]
  show "\<exists>binding. ConstraintToBinding unicodeLower constraint = (Some binding, None)
         \<and> vapb_MatchResources (vapb_Spec binding) = Some
              \<lparr>mr_NamespaceSelector = c_NamespaceSelector constraint,
               mr_ObjectSelector = c_LabelSelector constraint,
               mr_ResourceRules = None\<rparr>"
    by simp
qed

theorem binding_of_constraint_witness:
  "ConstraintToBinding (\<lambda>s. s) (newTestConstraint [] None None)
     = (Some
          \<lparr>vapb_Name = ''gatekeeper-foo-name'',
           vapb_Spec =
             \<lparr>vapb_PolicyName = ''gatekeeper-footemplate'',
              vapb_ParamRef = Some
                \<lparr>pr_Name = ''foo-name'', pr_ParameterNotFoundAction = Some AllowAction\<rparr>,
              vapb_MatchResources = Some
                \<lparr>mr_NamespaceSelector = None, mr_ObjectSelector = None, mr_ResourceRules = None\<rparr>,
              vapb_ValidationActions = Some [Deny]\<rparr>\<rparr>,
        None)
   \<and> (\<exists>binding. ConstraintToBinding (\<lambda>s. s)
          (newTestConstraint []
             (Some \<lparr>MatchLabels = [(''matchNS'', ''yes'')], MatchExpressions = []\<rparr>)
             (Some \<lparr>MatchLabels = [(''match'', ''yes'')], MatchExpressions = []\<rparr>))
        = (Some binding, None)
      \<and> vapb_MatchResources (vapb_Spec binding) = Some
           \<lparr>mr_NamespaceSelector = Some \<lparr>MatchLabels = [(''matchNS'', ''yes'')], MatchExpressions = []\<rparr>,
            mr_ObjectSelector = Some \<lparr>MatchLabels = [(''match'', ''yes'')], MatchExpressions = []\<rparr>,
            mr_ResourceRules = None\<rparr>)"
proof (intro conjI)
  let ?c = "newTestConstraint [] None None"
  have "c_NamespaceSelector ?c = None \<and> c_LabelSelector ?c = None \<and> c_EnforcementAction ?c = None"
    by (simp add: newTestConstraint_def)
  from binding_of_constraint [THEN conjunct1, THEN mp, OF this, of "\<lambda>s. s"]
  show "ConstraintToBinding (\<lambda>s. s) ?c
     = (Some
          \<lparr>vapb_Name = ''gatekeeper-foo-name'',
           vapb_Spec =
             \<lparr>vapb_PolicyName = ''gatekeeper-footemplate'',
              vapb_ParamRef = Some
                \<lparr>pr_Name = ''foo-name'', pr_ParameterNotFoundAction = Some AllowAction\<rparr>,
              vapb_MatchResources = Some
                \<lparr>mr_NamespaceSelector = None, mr_ObjectSelector = None, mr_ResourceRules = None\<rparr>,
              vapb_ValidationActions = Some [Deny]\<rparr>\<rparr>,
        None)"
    by (simp add: newTestConstraint_def ToLower_FooTemplate)
next
  let ?ns = "Some \<lparr>MatchLabels = [(''matchNS'', ''yes'')], MatchExpressions = []\<rparr>"
  let ?ls = "Some \<lparr>MatchLabels = [(''match'', ''yes'')], MatchExpressions = []\<rparr>"
  let ?c = "newTestConstraint [] ?ns ?ls"
  have "c_EnforcementAction ?c = None \<or> c_EnforcementAction ?c = Some ''deny''
        \<or> c_EnforcementAction ?c = Some ''warn''"
    by (simp add: newTestConstraint_def)
  from binding_of_constraint [THEN conjunct2, THEN mp, OF this, of "\<lambda>s. s"]
  show "\<exists>binding. ConstraintToBinding (\<lambda>s. s) ?c = (Some binding, None)
      \<and> vapb_MatchResources (vapb_Spec binding) = Some
           \<lparr>mr_NamespaceSelector = ?ns, mr_ObjectSelector = ?ls, mr_ResourceRules = None\<rparr>"
    by (simp add: newTestConstraint_def)
qed

text \<open>
  Claim C5 (the compilers are modelled from the spec). The policy name of a binding is
  the prefix and the lower-cased kind of the instance, and the binding's own name is the
  prefix and the instance's name as it is. The policy name equals the name of the
  definition compiled from any template of the same kind, and is the same for two kinds
  of ASCII letters that differ in case only; the kind \<^verbatim>\<open>"FooTemplate"\<close> gives
  \<^verbatim>\<open>gatekeeper-footemplate\<close>.
\<close>

theorem policy_name_of_kind:
  "(\<forall>binding. ConstraintToBinding unicodeLower constraint = (Some binding, None) \<longrightarrow>
      vapb_PolicyName (vapb_Spec binding) = ''gatekeeper-'' @ ToLower unicodeLower (c_Kind constraint)
      \<and> vapb_Name binding = ''gatekeeper-'' @ c_Name constraint
      \<and> (c_Kind constraint = ''FooTemplate'' \<longrightarrow>
           vapb_PolicyName (vapb_Spec binding) = ''gatekeeper-footemplate'')
      \<and> (\<forall>policy. ct_Kind template = c_Kind constraint
            \<and> TemplateToPolicyDefinition snippets unicodeLower FromUnstructured template
                = Return (Some policy, None) \<longrightarrow>
           vapb_PolicyName (vapb_Spec binding) = vap_Name policy)
      \<and> (\<forall>other binding'. isASCII (c_Kind constraint) \<and> isASCII (c_Kind other)
            \<and> map asciiLower (c_Kind other) = map asciiLower (c_Kind constraint)
            \<and> ConstraintToBinding unicodeLower other = (Some binding', None) \<longrightarrow>
           vapb_PolicyName (vapb_Spec binding') = vapb_PolicyName (vapb_Spec binding)))"
proof (intro allI impI)
  fix binding
  assume b: "ConstraintToBinding unicodeLower constraint = (Some binding, None)"
  note name = ConstraintToBinding_Some(2) [OF b]
  have 1: "vapb_PolicyName (vapb_Spec binding) = ''gatekeeper-'' @ ToLower unicodeLower (c_Kind constraint)"
    using name by (simp add: namePrefix_def)
  have 2: "vapb_Name binding = ''gatekeeper-'' @ c_Name constraint"
    using ConstraintToBinding_Some(1) [OF b] by (simp add: namePrefix_def)
  have 3: "c_Kind constraint = ''FooTemplate'' \<longrightarrow>
           vapb_PolicyName (vapb_Spec binding) = ''gatekeeper-footemplate''"
    using 1 by (simp add: ToLower_FooTemplate)
  have 4: "\<forall>policy. ct_Kind template = c_Kind constraint
            \<and> TemplateToPolicyDefinition snippets unicodeLower FromUnstructured template
                = Return (Some policy, None) \<longrightarrow>
           vapb_PolicyName (vapb_Spec binding) = vap_Name policy"
    using name by (auto dest: TemplateToPolicyDefinition_name)
  have 5: "\<forall>other binding'. isASCII (c_Kind constraint) \<and> isASCII (c_Kind other)
            \<and> map asciiLower (c_Kind other) = map asciiLower (c_Kind constraint)
            \<and> ConstraintToBinding unicodeLower other = (Some binding', None) \<longrightarrow>
           vapb_PolicyName (vapb_Spec binding') = vapb_PolicyName (vapb_Spec binding)"
    using name by (auto dest: ConstraintToBinding_Some(2) simp add: ToLower_def)
  from 1 2 3 4 5
  show "vapb_PolicyName (vapb_Spec binding) = ''gatekeeper-'' @ ToLower unicodeLower (c_Kind constraint)
      \<and> vapb_Name binding = ''gatekeeper-'' @ c_Name constraint
      \<and> (c_Kind constraint = ''FooTemplate'' \<longrightarrow>
           vapb_PolicyName (vapb_Spec binding) = ''gatekeeper-footemplate'')
      \<and> (\<forall>policy. ct_Kind template = c_Kind constraint
            \<and> TemplateToPolicyDefinition snippets unicodeLower FromUnstructured template
                = Return (Some policy, None) \<longrightarrow>
           vapb_PolicyName (vapb_Spec binding) = vap_Name policy)
      \<and> (\<forall>other binding'. isASCII (c_Kind constraint) \<and> isASCII (c_Kind other)
            \<and> map asciiLower (c_Kind other) = map asciiLower (c_Kind constraint)
            \<and> ConstraintToBinding unicodeLower other = (Some binding', None) \<longrightarrow>
           vapb_PolicyName (vapb_Spec binding') = vapb_PolicyName (vapb_Spec binding))"
    by (intro conjI)
qed

theorem policy_name_of_kind_witness:
  "\<exists>binding binding' policy.
     ConstraintToBinding (\<lambda>s. s) (newTestConstraint [] None None) = (Some binding, None)
     \<and> ConstraintToBinding (\<lambda>s. s) ((newTestConstraint [] None None)\<lparr>c_Kind := ''FOOTEMPLATE''\<rparr>)
         = (Some binding', None)
     \<and> TemplateToPolicyDefinition testSnippets (\<lambda>s. s) decodeSource
         (testTemplate ''footemplate'' ''FooTemplate'' (testPayload ''must_match_something'' ''my_variable''))
         = Return (Some policy, None)
     \<and> vapb_PolicyName (vapb_Spec binding) = ''gatekeeper-footemplate''
     \<and> vapb_PolicyName (vapb_Spec binding') = ''gatekeeper-footemplate''
     \<and> vap_Name policy = ''gatekeeper-footemplate''
     \<and> vapb_Name binding = ''gatekeeper-foo-name''"
proof -
  let ?c = "newTestConstraint [] None None"
  let ?c' = "(newTestConstraint [] None None)\<lparr>c_Kind := ''FOOTEMPLATE''\<rparr>"
  let ?t = "testTemplate ''footemplate'' ''FooTemplate'' (testPayload ''must_match_something'' ''my_variable'')"
  obtain binding where b: "ConstraintToBinding (\<lambda>s. s) ?c = (Some binding, None)"
    by (simp add: ConstraintToBinding_def enforcementAction_def newTestConstraint_def)
  obtain binding' where b': "ConstraintToBinding (\<lambda>s. s) ?c' = (Some binding', None)"
    by (simp add: ConstraintToBinding_def enforcementAction_def newTestConstraint_def)
  have src: "GetSourceFromTemplate decodeSource ?t = Return (Some validSource, None)"
    by (simp add: GetSourceFromTemplate_def testTemplate_def GetSource_testPayload
        Validate_testSource validSource_def constants)
  have "validateMatchConditions validSource = None" "validateVariables validSource = None"
    "GetV1alpha1FailurePolicy validSource = (Some admissionv1alpha1_Fail, None)"
    by (simp_all add: validateMatchConditions_def validateVariables_def GetV1alpha1FailurePolicy_def
        admissionv1_Fail_def test_inputs constants)
  from compile_valid_source [OF src this, of testSnippets "\<lambda>s. s"]
  obtain policy where p: "TemplateToPolicyDefinition testSnippets (\<lambda>s. s) decodeSource ?t
      = Return (Some policy, None)"
    by simp
  have kinds: "c_Kind ?c = ''FooTemplate''" "ct_Kind ?t = c_Kind ?c" "c_Name ?c = ''foo-name''"
    by (simp_all add: newTestConstraint_def testTemplate_def)
  have ascii: "isASCII (c_Kind ?c) \<and> isASCII (c_Kind ?c')
      \<and> map asciiLower (c_Kind ?c') = map asciiLower (c_Kind ?c)"
    unfolding kinds by code_simp
  note facts = policy_name_of_kind [of "\<lambda>s. s" ?c ?t testSnippets decodeSource, THEN spec, THEN mp, OF b]
  have 1: "vapb_PolicyName (vapb_Spec binding) = ''gatekeeper-footemplate''"
    using facts kinds(1) by blast
  have 2: "vapb_PolicyName (vapb_Spec binding) = vap_Name policy"
    using facts kinds(2) p by blast
  have 3: "vapb_PolicyName (vapb_Spec binding') = vapb_PolicyName (vapb_Spec binding)"
    using facts ascii b' by blast
  have 4: "vapb_Name binding = ''gatekeeper-foo-name''"
    using facts kinds(3) by simp
  from b b' p 1 2 3 4 show ?thesis
    by (intro exI [of _ binding] exI [of _ binding'] exI [of _ policy]) simp
qed

end
